theory Spec2Isabelle
  imports Complex_Main "HOL-Library.Word" "HOL-Library.Monad_Syntax"
begin

unbundle bit_operations_syntax

chapter \<open>The model\<close>

section \<open>Fixed-point conversion (rdpq.c, \<open>float_to_s16_16\<close>)\<close>

text \<open>
  A C \<open>float\<close> that is not a NaN is a real number or an infinity. The function below
  multiplies by a power of two, takes the floor and converts to \<open>int32_t\<close>; on the
  floats that reach the last line (\<open>-32768 \<le> f < 32768\<close>) each of these steps is exact,
  so the function is modelled on \<open>real\<close>. The two infinities take the two clamping
  branches like every other value outside the range. The result is an \<open>int32_t\<close>:
  a 32-bit word, read as a signed number by \<open>sint\<close>.
\<close>

definition float_to_s16_16 :: "real \<Rightarrow> 32 word" where
  "float_to_s16_16 f =
     (if f \<ge> 32768 then 0x7FFFFFFF
      else if f < - 32768 then 0x80000000
      else word_of_int \<lfloor>f * 65536\<rfloor>)"

section \<open>Triangle coefficients (rdpq.c, \<open>rdpq_triangle\<close>)\<close>

text \<open>
  A vertex is a \<open>const float *\<close>: the list of floats it points to. Adding an offset to
  the pointer drops that many floats; the caller has to pass vertices long enough for
  the offsets it names. Float arithmetic is modelled by real arithmetic, which is the
  float result wherever no rounding happens; the multiplication by 4, \<open>floorf\<close> and
  the division by 4 that quantize Y never round.
\<close>

type_synonym vertex = "real list"

definition FLT_MIN :: real where
  "FLT_MIN = 1 / 2 ^ 126"

text \<open>\<open>TRUNCATE_S11_2\<close>, on an \<open>int32_t\<close>: \<open>>>\<close> is the arithmetic shift.\<close>

definition TRUNCATE_S11_2 :: "32 word \<Rightarrow> 32 word" where
  "TRUNCATE_S11_2 x = (x AND 0x1fff) OR (signed_drop_bit 18 x AND NOT 0x1fff)"

text \<open>
  Modelled from the spec: the macro \<open>_carg\<close> is declared in a header that is not part of
  the sources at hand; it is the codec's "encode field" (section 4.1): the value, masked
  and shifted into place.
\<close>

definition carg :: "32 word \<Rightarrow> 32 word \<Rightarrow> nat \<Rightarrow> 32 word" where
  "carg v m sh = push_bit sh (v AND m)"

text \<open>The operator \<open>&&\<close> of C, on 32-bit operands: 1 if both are nonzero, else 0.\<close>

definition c_logand :: "32 word \<Rightarrow> 32 word \<Rightarrow> 32 word" where
  "c_logand a b = (if a \<noteq> 0 \<and> b \<noteq> 0 then 1 else 0)"

record rdpq_tri_edge_data_t =
  hx :: real
  hy :: real
  mx :: real
  my :: real
  fy :: real
  ish :: real
  attr_factor :: real

text \<open>
  The three conditional swaps of \<open>rdpq_triangle\<close> (the \<open>SWAP\<close> macro exchanges the two
  pointers). The comparisons read the floats \<open>v[pos_offset + 1]\<close> themselves.
\<close>

definition rdpq_triangle_sort ::
  "nat \<Rightarrow> vertex \<Rightarrow> vertex \<Rightarrow> vertex \<Rightarrow> vertex \<times> vertex \<times> vertex" where
  "rdpq_triangle_sort pos_offset v1 v2 v3 =
     (let (v1, v2) = (if v1 ! (pos_offset + 1) > v2 ! (pos_offset + 1) then (v2, v1) else (v1, v2));
          (v2, v3) = (if v2 ! (pos_offset + 1) > v3 ! (pos_offset + 1) then (v3, v2) else (v2, v3));
          (v1, v2) = (if v1 ! (pos_offset + 1) > v2 ! (pos_offset + 1) then (v2, v1) else (v1, v2))
      in (v1, v2, v3))"

text \<open>
  The same three swaps, driven by the quantized Y values as the specification words it
  (section 4.2, step 1); kept apart from the source's function for comparison.
\<close>

definition spec_sort_quantized_y ::
  "nat \<Rightarrow> vertex \<Rightarrow> vertex \<Rightarrow> vertex \<Rightarrow> vertex \<times> vertex \<times> vertex" where
  "spec_sort_quantized_y pos_offset v1 v2 v3 =
     (let q = (\<lambda>v. \<lfloor>v ! (pos_offset + 1) * 4\<rfloor>);
          (v1, v2) = (if q v1 > q v2 then (v2, v1) else (v1, v2));
          (v2, v3) = (if q v2 > q v3 then (v3, v2) else (v2, v3));
          (v1, v2) = (if q v1 > q v2 then (v2, v1) else (v1, v2))
      in (v1, v2, v3))"

text \<open>
  \<open>__rdpq_write_edge_coeffs\<close>: the edge data handed on to the attribute blocks, and the
  eight words written. \<open>(int32_t)floorf(v[1] * 4)\<close> is the integer \<open>\<lfloor>v[1] * 4\<rfloor>\<close>.
\<close>

definition rdpq_write_edge_coeffs ::
  "8 word \<Rightarrow> 8 word \<Rightarrow> vertex \<Rightarrow> vertex \<Rightarrow> vertex \<Rightarrow> rdpq_tri_edge_data_t \<times> 32 word list" where
  "rdpq_write_edge_coeffs tile level v1 v2 v3 =
     (let x1 = v1 ! 0; x2 = v2 ! 0; x3 = v3 ! 0;
          y1 = of_int \<lfloor>v1 ! 1 * 4\<rfloor> / 4;
          y2 = of_int \<lfloor>v2 ! 1 * 4\<rfloor> / 4;
          y3 = of_int \<lfloor>v3 ! 1 * 4\<rfloor> / 4;
          y1f = TRUNCATE_S11_2 (word_of_int \<lfloor>v1 ! 1 * 4\<rfloor>);
          y2f = TRUNCATE_S11_2 (word_of_int \<lfloor>v2 ! 1 * 4\<rfloor>);
          y3f = TRUNCATE_S11_2 (word_of_int \<lfloor>v3 ! 1 * 4\<rfloor>);
          hx = x3 - x1; hy = y3 - y1;
          mx = x2 - x1; my = y2 - y1;
          lx = x3 - x2; ly = y3 - y2;
          nz = hx * my - hy * mx;
          attr_factor = (if \<bar>nz\<bar> > FLT_MIN then - 1 / nz else 0);
          lft = (if nz < 0 then 1 else 0);
          ish = (if \<bar>hy\<bar> > FLT_MIN then hx / hy else 0);
          ism = (if \<bar>my\<bar> > FLT_MIN then mx / my else 0);
          isl = (if \<bar>ly\<bar> > FLT_MIN then lx / ly else 0);
          fy = of_int \<lfloor>y1\<rfloor> - y1;
          xh = x1 + fy * ish;
          xm = x1 + fy * ism;
          xl = x2
      in (\<lparr>hx = hx, hy = hy, mx = mx, my = my, fy = fy, ish = ish, attr_factor = attr_factor\<rparr>,
          [carg lft 0x1 23 OR carg (ucast level) 0x7 19 OR carg (ucast tile) 0x7 16
             OR carg y3f 0x3FFF 0,
           carg y2f 0x3FFF 16 OR carg y1f 0x3FFF 0,
           float_to_s16_16 xl,
           float_to_s16_16 isl,
           float_to_s16_16 xh,
           float_to_s16_16 ish,
           float_to_s16_16 xm,
           float_to_s16_16 ism]))"

text \<open>
  \<open>__rdpq_write_shade_coeffs\<close>, in two steps: the sixteen \<open>int32_t\<close> locals
  (\<open>final_r\<close> ... \<open>DaDy_fixed\<close>), then the sixteen words written from them.
\<close>

record shade_fixed =
  final_r :: "32 word"
  final_g :: "32 word"
  final_b :: "32 word"
  final_a :: "32 word"
  DrDx_fixed :: "32 word"
  DgDx_fixed :: "32 word"
  DbDx_fixed :: "32 word"
  DaDx_fixed :: "32 word"
  DrDe_fixed :: "32 word"
  DgDe_fixed :: "32 word"
  DbDe_fixed :: "32 word"
  DaDe_fixed :: "32 word"
  DrDy_fixed :: "32 word"
  DgDy_fixed :: "32 word"
  DbDy_fixed :: "32 word"
  DaDy_fixed :: "32 word"

definition shade_coeffs_fixed ::
  "rdpq_tri_edge_data_t \<Rightarrow> vertex \<Rightarrow> vertex \<Rightarrow> vertex \<Rightarrow> shade_fixed" where
  "shade_coeffs_fixed data v1 v2 v3 =
     (let mr = v2 ! 0 - v1 ! 0; mg = v2 ! 1 - v1 ! 1; mb = v2 ! 2 - v1 ! 2; ma = v2 ! 3 - v1 ! 3;
          hr = v3 ! 0 - v1 ! 0; hg = v3 ! 1 - v1 ! 1; hb = v3 ! 2 - v1 ! 2; ha = v3 ! 3 - v1 ! 3;
          nxR = hy data * mr - my data * hr;
          nxG = hy data * mg - my data * hg;
          nxB = hy data * mb - my data * hb;
          nxA = hy data * ma - my data * ha;
          nyR = mx data * hr - hx data * mr;
          nyG = mx data * hg - hx data * mg;
          nyB = mx data * hb - hx data * mb;
          nyA = mx data * ha - hx data * ma;
          DrDx = nxR * attr_factor data;
          DgDx = nxG * attr_factor data;
          DbDx = nxB * attr_factor data;
          DaDx = nxA * attr_factor data;
          DrDy = nyR * attr_factor data;
          DgDy = nyG * attr_factor data;
          DbDy = nyB * attr_factor data;
          DaDy = nyA * attr_factor data;
          DrDe = DrDy + DrDx * ish data;
          DgDe = DgDy + DgDx * ish data;
          DbDe = DbDy + DbDx * ish data;
          DaDe = DaDy + DaDx * ish data
      in \<lparr>final_r = float_to_s16_16 (v1 ! 0 + fy data * DrDe),
          final_g = float_to_s16_16 (v1 ! 1 + fy data * DgDe),
          final_b = float_to_s16_16 (v1 ! 2 + fy data * DbDe),
          final_a = float_to_s16_16 (v1 ! 3 + fy data * DaDe),
          DrDx_fixed = float_to_s16_16 DrDx,
          DgDx_fixed = float_to_s16_16 DgDx,
          DbDx_fixed = float_to_s16_16 DbDx,
          DaDx_fixed = float_to_s16_16 DaDx,
          DrDe_fixed = float_to_s16_16 DrDe,
          DgDe_fixed = float_to_s16_16 DgDe,
          DbDe_fixed = float_to_s16_16 DbDe,
          DaDe_fixed = float_to_s16_16 DaDe,
          DrDy_fixed = float_to_s16_16 DrDy,
          DgDy_fixed = float_to_s16_16 DgDy,
          DbDy_fixed = float_to_s16_16 DbDy,
          DaDy_fixed = float_to_s16_16 DaDy\<rparr>)"

text \<open>
  The sixteen \<open>rspq_write_arg\<close> calls, in order. Two consecutive 32-bit arguments make
  one 64-bit command word, so arguments four apart lie in 64-bit words two apart. In the
  last two lines the source has \<open>&&\<close>, not \<open>&\<close>.
\<close>

definition shade_coeffs_pack :: "shade_fixed \<Rightarrow> 32 word list" where
  "shade_coeffs_pack c =
     [(final_r c AND 0xffff0000) OR (0xffff AND signed_drop_bit 16 (final_g c)),
      (final_b c AND 0xffff0000) OR (0xffff AND signed_drop_bit 16 (final_a c)),
      (DrDx_fixed c AND 0xffff0000) OR (0xffff AND signed_drop_bit 16 (DgDx_fixed c)),
      (DbDx_fixed c AND 0xffff0000) OR (0xffff AND signed_drop_bit 16 (DaDx_fixed c)),
      push_bit 16 (final_r c) OR (final_g c AND 0xffff),
      push_bit 16 (final_b c) OR (final_a c AND 0xffff),
      push_bit 16 (DrDx_fixed c) OR (DgDx_fixed c AND 0xffff),
      push_bit 16 (DbDx_fixed c) OR (DaDx_fixed c AND 0xffff),
      (DrDe_fixed c AND 0xffff0000) OR (0xffff AND signed_drop_bit 16 (DgDe_fixed c)),
      (DbDe_fixed c AND 0xffff0000) OR (0xffff AND signed_drop_bit 16 (DaDe_fixed c)),
      (DrDy_fixed c AND 0xffff0000) OR (0xffff AND signed_drop_bit 16 (DgDy_fixed c)),
      (DbDy_fixed c AND 0xffff0000) OR (0xffff AND signed_drop_bit 16 (DaDy_fixed c)),
      push_bit 16 (DrDe_fixed c) OR (DgDe_fixed c AND 0xffff),
      push_bit 16 (DbDe_fixed c) OR (DaDe_fixed c AND 0xffff),
      push_bit 16 (DrDy_fixed c) OR c_logand (DgDy_fixed c) 0xffff,
      push_bit 16 (DbDy_fixed c) OR c_logand (DaDy_fixed c) 0xffff]"

definition rdpq_write_shade_coeffs ::
  "rdpq_tri_edge_data_t \<Rightarrow> vertex \<Rightarrow> vertex \<Rightarrow> vertex \<Rightarrow> 32 word list" where
  "rdpq_write_shade_coeffs data v1 v2 v3 = shade_coeffs_pack (shade_coeffs_fixed data v1 v2 v3)"

text \<open>
  The argument words of a shaded triangle without texture and depth
  (\<open>shade_offset \<ge> 0\<close>, \<open>tex_offset < 0\<close>, \<open>z_offset < 0\<close>): the sort, the edge
  coefficients, the shade coefficients.
\<close>

definition rdpq_triangle_shaded ::
  "8 word \<Rightarrow> 8 word \<Rightarrow> nat \<Rightarrow> nat \<Rightarrow> vertex \<Rightarrow> vertex \<Rightarrow> vertex \<Rightarrow> 32 word list" where
  "rdpq_triangle_shaded tile level pos_offset shade_offset v1 v2 v3 =
     (let (v1, v2, v3) = rdpq_triangle_sort pos_offset v1 v2 v3;
          (data, edge) = rdpq_write_edge_coeffs tile level
                           (drop pos_offset v1) (drop pos_offset v2) (drop pos_offset v3)
      in edge @ rdpq_write_shade_coeffs data
                  (drop shade_offset v1) (drop shade_offset v2) (drop shade_offset v3))"

section \<open>Command writer, auto-sync engine and block recorder (rdpq.c)\<close>

subsection \<open>What the sources at hand do not define\<close>

text \<open>
  An allocated \<open>rdpq_block_t\<close>: the \<open>next\<close> pointer, the saved dirty mask, and the
  number of command words the flexible array \<open>cmds\<close> was allocated with. Pointers are
  32-bit addresses, 0 is \<open>NULL\<close>. The words of \<open>cmds\<close> themselves live in the memory
  of the state below.
\<close>

record rdpq_block_t =
  "next" :: "32 word"
  autosync_state :: "32 word"
  cmds_words :: nat

text \<open>
  The constants and macros that rdpq.c takes from headers outside the sources at hand
  are parameters of the model, collected in one record. \<open>block_cmds\<close> is the address of
  the member \<open>cmds\<close> of the block at an address.
\<close>

record env =
  PhysicalAddr :: "32 word \<Rightarrow> 32 word"
  CachedAddr :: "32 word \<Rightarrow> 32 word"
  SP_STATUS_SIG_RDPSYNCFULL :: "32 word"
  SP_WSTATUS_CLEAR_SIG_RDPSYNCFULL :: "32 word"
  block_cmds :: "32 word \<Rightarrow> 32 word"
  RSPQ_CMD_RDP :: "32 word"
  RSPQ_CMD_RDP_WAIT_IDLE :: "32 word"
  RDPQ_CMD_SYNC_FULL :: "32 word"
  RDPQ_CMD_SYNC_FULL_FIX :: "32 word"
  RDPQ_CMD_SYNC_PIPE :: "32 word"
  RDPQ_CMD_SYNC_TILE :: "32 word"
  RDPQ_CMD_SYNC_LOAD :: "32 word"
  AUTOSYNC_TILES :: "32 word"
  AUTOSYNC_TMEMS :: "32 word"
  AUTOSYNC_PIPE :: "32 word"
  RDPQ_CFG_AUTOSYNCPIPE :: "32 word"
  RDPQ_CFG_AUTOSYNCLOAD :: "32 word"
  RDPQ_CFG_AUTOSYNCTILE :: "32 word"

definition RDPQ_MAX_COMMAND_SIZE :: int where
  "RDPQ_MAX_COMMAND_SIZE = 44"

definition RDPQ_BLOCK_MIN_SIZE :: int where
  "RDPQ_BLOCK_MIN_SIZE = 64"

definition RDPQ_BLOCK_MAX_SIZE :: int where
  "RDPQ_BLOCK_MAX_SIZE = 4192"

definition RDPQ_OVL_ID :: "32 word" where
  "RDPQ_OVL_ID = push_bit 28 0xC"

subsection \<open>The state\<close>

text \<open>
  The file-scope variables of rdpq.c, and the parts of the machine they point into:
  \<^item> \<open>heap\<close>: the blocks allocated by \<open>malloc_uncached\<close> and not yet freed;
  \<open>uncached_allocs\<close> lists the addresses the allocator returns, in order, and
  \<open>uncached_count\<close> counts the allocations made;
  \<^item> \<open>mem\<close>: the words of memory, by byte address (the block payloads are written here);
  \<^item> \<open>rspq\<close>: the words appended to the CP's stream so far. The extern
  \<open>rspq_cur_pointer\<close> is the position after the last of them, and \<open>last_rdp_cmd\<close> is a
  position in this stream or \<open>NULL\<close>.

  The variable \<open>rdpq_block_end\<close> is the field \<open>rdpq_block_end_ptr\<close>, since the function
  \<open>__rdpq_block_end\<close> has the name; the functions are named as in the source, without
  the leading underscores.

  A function that can hit an assertion (\<open>assert\<close>, \<open>assertf\<close>) or dereference a pointer
  to no block returns an \<open>option\<close>: \<open>None\<close> is the aborted program.
\<close>

record rdpq =
  rdpq_block_ptr :: "32 word"
  rdpq_block_end_ptr :: "32 word"
  rdpq_block_active :: bool
  rdpq_config :: "8 word"
  rdpq_autosync_state :: "nat \<Rightarrow> 32 word"
  rdpq_block :: "32 word"
  rdpq_block_first :: "32 word"
  rdpq_block_size :: int
  last_rdp_cmd :: "nat option"
  heap :: "32 word \<rightharpoonup> rdpq_block_t"
  uncached_allocs :: "nat \<Rightarrow> 32 word"
  uncached_count :: nat
  mem :: "32 word \<Rightarrow> 32 word"
  rspq :: "32 word list"

text \<open>
  Modelled from the spec: \<open>rspq_write\<close> and \<open>rspq_int_write\<close> belong to the CP library,
  which is not part of the sources at hand. They are the primitive \<open>queue_push(opcode,
  args...)\<close> of section 6, which appends to the CP's stream. The first word carries the
  overlay, the command and the first argument, laid out as \<open>rdpq_static_write\<close> and the
  patch in \<open>__rdpq_block_flush\<close> lay them out.
\<close>

definition rspq_write :: "32 word \<Rightarrow> 32 word \<Rightarrow> 32 word list \<Rightarrow> rdpq \<Rightarrow> rdpq" where
  "rspq_write ovl_id cmd_id args s =
     s\<lparr>rspq := rspq s @
         ((ovl_id + push_bit 24 cmd_id) OR (case args of [] \<Rightarrow> 0 | a # _ \<Rightarrow> a)) # tl args\<rparr>"

definition rspq_int_write :: "32 word \<Rightarrow> 32 word list \<Rightarrow> rdpq \<Rightarrow> rdpq" where
  "rspq_int_write cmd_id args s = rspq_write 0 cmd_id args s"

subsection \<open>Configuration\<close>

definition rdpq_get_config :: "rdpq \<Rightarrow> 32 word" where
  "rdpq_get_config s = ucast (rdpq_config s)"

definition rdpq_set_config :: "32 word \<Rightarrow> rdpq \<Rightarrow> rdpq" where
  "rdpq_set_config cfg s = s\<lparr>rdpq_config := ucast cfg\<rparr>"

subsection \<open>Submission glue\<close>

text \<open>
  \<open>__rdpq_block_flush\<close>. \<open>diff == 2\<close> compares the position after the last word of the
  stream with \<open>last_rdp_cmd\<close>: the stream ends with the two words written at
  \<open>last_rdp_cmd\<close>. With \<open>last_rdp_cmd == NULL\<close> the difference is the whole address of
  \<open>rspq_cur_pointer\<close> and never 2.
\<close>

definition rdpq_block_flush :: "env \<Rightarrow> 32 word \<Rightarrow> 32 word \<Rightarrow> rdpq \<Rightarrow> rdpq option" where
  "rdpq_block_flush K start end s =
     (if start AND 0x7 \<noteq> 0 then None
      else if end AND 0x7 \<noteq> 0 then None
      else
        let phys_start = PhysicalAddr K start;
            phys_end = PhysicalAddr K end;
            submit = (\<lambda>s. rspq_int_write (RSPQ_CMD_RDP K) [phys_end, phys_start]
                             (s\<lparr>last_rdp_cmd := Some (length (rspq s))\<rparr>))
        in (case last_rdp_cmd s of
              None \<Rightarrow> Some (submit s)
            | Some p \<Rightarrow>
                if length (rspq s) = p + 2 \<and> (rspq s ! p) AND 0xFFFFFF = phys_start
                then Some (s\<lparr>rspq := (rspq s)[p := push_bit 24 (RSPQ_CMD_RDP K) OR phys_end]\<rparr>)
                else Some (submit s)))"

subsection \<open>Block recorder\<close>

text \<open>
  \<open>new + size - RDPQ_MAX_COMMAND_SIZE\<close> is arithmetic on a \<open>uint32_t *\<close>: four bytes
  per unit.
\<close>

definition rdpq_block_switch_buffer :: "env \<Rightarrow> 32 word \<Rightarrow> 32 word \<Rightarrow> rdpq \<Rightarrow> rdpq option" where
  "rdpq_block_switch_buffer K new sz s =
     (if \<not> (uint sz \<ge> RDPQ_MAX_COMMAND_SIZE) then None
      else
        let s = s\<lparr>rdpq_block_ptr := new,
                  rdpq_block_end_ptr := new + 4 * sz - 4 * word_of_int RDPQ_MAX_COMMAND_SIZE\<rparr>
        in rdpq_block_flush K (rdpq_block_ptr s) (rdpq_block_ptr s) s)"

text \<open>
  \<open>malloc_uncached\<close> hands out the next address of \<open>uncached_allocs\<close>; the new block is
  entered in the heap with the number of command words it was allocated with. Its fields
  are not initialised by the allocator; \<open>next\<close> is set at once, and \<open>autosync_state\<close>,
  shown as 0 here, is written by \<open>__rdpq_block_end\<close> before anything reads it.
\<close>

definition malloc_uncached :: "nat \<Rightarrow> rdpq \<Rightarrow> 32 word \<times> rdpq" where
  "malloc_uncached words s =
     (let b = uncached_allocs s (uncached_count s)
      in (b, s\<lparr>uncached_count := uncached_count s + 1,
               heap := (heap s)(b \<mapsto> \<lparr>next = 0, autosync_state = 0, cmds_words = words\<rparr>)\<rparr>))"

text \<open>Assignment to a field of the block at a pointer; \<open>None\<close> if there is no block there.\<close>

definition set_next :: "32 word \<Rightarrow> 32 word \<Rightarrow> rdpq \<Rightarrow> rdpq option" where
  "set_next p v s =
     (case heap s p of
        None \<Rightarrow> None
      | Some blk \<Rightarrow> Some (s\<lparr>heap := (heap s)(p \<mapsto> blk\<lparr>next := v\<rparr>)\<rparr>))"

definition set_autosync_state :: "32 word \<Rightarrow> 32 word \<Rightarrow> rdpq \<Rightarrow> rdpq option" where
  "set_autosync_state p v s =
     (case heap s p of
        None \<Rightarrow> None
      | Some blk \<Rightarrow> Some (s\<lparr>heap := (heap s)(p \<mapsto> blk\<lparr>autosync_state := v\<rparr>)\<rparr>))"

definition rdpq_block_next_buffer :: "env \<Rightarrow> rdpq \<Rightarrow> rdpq option" where
  "rdpq_block_next_buffer K s =
     (let (b, s) = malloc_uncached (nat (rdpq_block_size s)) s
      in do {
        s \<leftarrow> set_next b 0 s;
        s \<leftarrow> (if rdpq_block s \<noteq> 0 then set_next (rdpq_block s) b s else Some s);
        let s = s\<lparr>rdpq_block := b\<rparr>;
        let s = (if rdpq_block_first s = 0 then s\<lparr>rdpq_block_first := b\<rparr> else s);
        s \<leftarrow> rdpq_block_switch_buffer K (block_cmds K (rdpq_block s))
               (word_of_int (rdpq_block_size s)) s;
        Some (if rdpq_block_size s < RDPQ_BLOCK_MAX_SIZE
              then s\<lparr>rdpq_block_size := rdpq_block_size s * 2\<rparr> else s)
      })"

definition rdpq_block_begin :: "rdpq \<Rightarrow> rdpq" where
  "rdpq_block_begin s =
     (let s = s\<lparr>rdpq_block_active := True,
                rdpq_block := 0,
                rdpq_block_first := 0,
                last_rdp_cmd := None,
                rdpq_block_size := RDPQ_BLOCK_MIN_SIZE\<rparr>;
          s = s\<lparr>rdpq_autosync_state := (rdpq_autosync_state s)(1 := rdpq_autosync_state s 0)\<rparr>
      in s\<lparr>rdpq_autosync_state := (rdpq_autosync_state s)(0 := 0xFFFFFFFF)\<rparr>)"

text \<open>\<open>__rdpq_block_end\<close> returns the handle \<open>ret\<close> together with the new state.\<close>

definition rdpq_block_end :: "rdpq \<Rightarrow> (32 word \<times> rdpq) option" where
  "rdpq_block_end s =
     (let ret = rdpq_block_first s;
          s = s\<lparr>rdpq_block_active := False\<rparr>
      in do {
        s \<leftarrow> (if rdpq_block_first s \<noteq> 0
               then set_autosync_state (rdpq_block_first s) (rdpq_autosync_state s 0) s
               else Some s);
        let s = s\<lparr>rdpq_autosync_state := (rdpq_autosync_state s)(0 := rdpq_autosync_state s 1)\<rparr>;
        Some (ret, s\<lparr>rdpq_block_first := 0, rdpq_block := 0, last_rdp_cmd := None\<rparr>)
      })"

definition rdpq_block_run :: "32 word \<Rightarrow> rdpq \<Rightarrow> rdpq option" where
  "rdpq_block_run block s =
     (if block \<noteq> 0
      then (case heap s block of
              None \<Rightarrow> None
            | Some blk \<Rightarrow>
                Some (s\<lparr>rdpq_autosync_state := (rdpq_autosync_state s)(0 := autosync_state blk)\<rparr>))
      else Some s)"

text \<open>
  \<open>__rdpq_block_free\<close>: the loop follows the \<open>next\<close> pointers and releases each block.
  It is a recursion that need not return (\<open>None\<close>); following a pointer to no block is
  \<open>None\<close> as well.
\<close>

partial_function (option) rdpq_block_free :: "32 word \<Rightarrow> rdpq \<Rightarrow> rdpq option" where
  "rdpq_block_free block s =
     (if block \<noteq> 0
      then (case heap s block of
              None \<Rightarrow> None
            | Some blk \<Rightarrow> rdpq_block_free (next blk) (s\<lparr>heap := (heap s)(block := None)\<rparr>))
      else Some s)"

definition rdpq_block_check :: "env \<Rightarrow> rdpq \<Rightarrow> rdpq option" where
  "rdpq_block_check K s =
     (if rdpq_block_active s \<and> rdpq_block s = 0 then rdpq_block_next_buffer K s else Some s)"

subsection \<open>Command writer\<close>

text \<open>\<open>*ptr++ = w\<close>, for each word of a command in turn.\<close>

fun write_words :: "(32 word \<Rightarrow> 32 word) \<Rightarrow> 32 word \<Rightarrow> 32 word list \<Rightarrow> (32 word \<Rightarrow> 32 word)" where
  "write_words m ptr [] = m"
| "write_words m ptr (w # ws) = write_words (m(ptr := w)) (ptr + 4) ws"

definition rdpq_dynamic_write :: "32 word \<Rightarrow> 32 word list \<Rightarrow> rdpq \<Rightarrow> rdpq" where
  "rdpq_dynamic_write cmd_id args s = rspq_write RDPQ_OVL_ID cmd_id args s"

definition rdpq_static_write :: "env \<Rightarrow> 32 word \<Rightarrow> 32 word \<Rightarrow> 32 word list \<Rightarrow> rdpq \<Rightarrow> rdpq option" where
  "rdpq_static_write K cmd_id arg0 args s =
     (let ws = ((RDPQ_OVL_ID + push_bit 24 cmd_id) OR arg0) # args;
          ptr = rdpq_block_ptr s + 4 * of_nat (length ws);
          s = s\<lparr>mem := write_words (mem s) (rdpq_block_ptr s) ws\<rparr>
      in do {
        s \<leftarrow> rdpq_block_flush K (rdpq_block_ptr s) ptr s;
        let s = s\<lparr>rdpq_block_ptr := ptr\<rparr>;
        if rdpq_block_ptr s > rdpq_block_end_ptr s then rdpq_block_next_buffer K s else Some s
      })"

definition rdpq_static_skip :: "env \<Rightarrow> nat \<Rightarrow> rdpq \<Rightarrow> rdpq option" where
  "rdpq_static_skip K sz s =
     (let s = s\<lparr>rdpq_block_ptr := rdpq_block_ptr s + 4 * of_nat sz\<rparr>
      in if rdpq_block_ptr s > rdpq_block_end_ptr s then rdpq_block_next_buffer K s else Some s)"

definition in_block :: "rdpq \<Rightarrow> bool" where
  "in_block s = rdpq_block_active s"

definition rdpq_write :: "env \<Rightarrow> 32 word \<Rightarrow> 32 word \<Rightarrow> 32 word list \<Rightarrow> rdpq \<Rightarrow> rdpq option" where
  "rdpq_write K cmd_id arg0 args s =
     (if in_block s
      then do { s \<leftarrow> rdpq_block_check K s; rdpq_static_write K cmd_id arg0 args s }
      else Some (rdpq_dynamic_write cmd_id (arg0 # args) s))"

definition rdpq_write8 :: "env \<Rightarrow> 32 word \<Rightarrow> 32 word \<Rightarrow> 32 word \<Rightarrow> rdpq \<Rightarrow> rdpq option" where
  "rdpq_write8 K cmd_id arg0 arg1 s = rdpq_write K cmd_id arg0 [arg1] s"

subsection \<open>Auto-sync engine\<close>

definition autosync_use :: "32 word \<Rightarrow> rdpq \<Rightarrow> rdpq" where
  "autosync_use res s =
     s\<lparr>rdpq_autosync_state := (rdpq_autosync_state s)(0 := rdpq_autosync_state s 0 OR res)\<rparr>"

definition rdpq_sync_pipe :: "env \<Rightarrow> rdpq \<Rightarrow> rdpq option" where
  "rdpq_sync_pipe K s = do {
     s \<leftarrow> rdpq_write8 K (RDPQ_CMD_SYNC_PIPE K) 0 0 s;
     Some (s\<lparr>rdpq_autosync_state :=
              (rdpq_autosync_state s)(0 := rdpq_autosync_state s 0 AND NOT (AUTOSYNC_PIPE K))\<rparr>)
   }"

definition rdpq_sync_tile :: "env \<Rightarrow> rdpq \<Rightarrow> rdpq option" where
  "rdpq_sync_tile K s = do {
     s \<leftarrow> rdpq_write8 K (RDPQ_CMD_SYNC_TILE K) 0 0 s;
     Some (s\<lparr>rdpq_autosync_state :=
              (rdpq_autosync_state s)(0 := rdpq_autosync_state s 0 AND NOT (AUTOSYNC_TILES K))\<rparr>)
   }"

definition rdpq_sync_load :: "env \<Rightarrow> rdpq \<Rightarrow> rdpq option" where
  "rdpq_sync_load K s = do {
     s \<leftarrow> rdpq_write8 K (RDPQ_CMD_SYNC_LOAD K) 0 0 s;
     Some (s\<lparr>rdpq_autosync_state :=
              (rdpq_autosync_state s)(0 := rdpq_autosync_state s 0 AND NOT (AUTOSYNC_TMEMS K))\<rparr>)
   }"

text \<open>
  \<open>autosync_change\<close>. The parameter \<open>res\<close> is intersected with the dirty mask once, on
  entry; the three tests read that local value, not the mask as the syncs update it.
\<close>

definition autosync_change :: "env \<Rightarrow> 32 word \<Rightarrow> rdpq \<Rightarrow> rdpq option" where
  "autosync_change K res s =
     (let res = res AND rdpq_autosync_state s 0
      in if res \<noteq> 0
         then do {
           s \<leftarrow> (if res AND AUTOSYNC_TILES K \<noteq> 0
                      \<and> ucast (rdpq_config s) AND RDPQ_CFG_AUTOSYNCTILE K \<noteq> 0
                  then rdpq_sync_tile K s else Some s);
           s \<leftarrow> (if res AND AUTOSYNC_TMEMS K \<noteq> 0
                      \<and> ucast (rdpq_config s) AND RDPQ_CFG_AUTOSYNCLOAD K \<noteq> 0
                  then rdpq_sync_load K s else Some s);
           s \<leftarrow> (if res AND AUTOSYNC_PIPE K \<noteq> 0
                      \<and> ucast (rdpq_config s) AND RDPQ_CFG_AUTOSYNCPIPE K \<noteq> 0
                  then rdpq_sync_pipe K s else Some s);
           Some s
         }
         else Some s)"

subsection \<open>SYNC_FULL and the interrupt bridge\<close>

definition rdpq_sync_full :: "env \<Rightarrow> 32 word \<Rightarrow> 32 word \<Rightarrow> rdpq \<Rightarrow> rdpq option" where
  "rdpq_sync_full K callback arg s =
     (let w0 = PhysicalAddr K callback;
          w1 = arg
      in do {
        s \<leftarrow> (if in_block s
               then do {
                 s \<leftarrow> rdpq_block_check K s;
                 let s = rdpq_dynamic_write (RDPQ_CMD_SYNC_FULL_FIX K) [w0, w1] s;
                 rdpq_static_write K (RDPQ_CMD_SYNC_FULL K) w0 [w1] s
               }
               else Some (rdpq_dynamic_write (RDPQ_CMD_SYNC_FULL K) [w0, w1] s));
        Some (s\<lparr>rdpq_autosync_state := (rdpq_autosync_state s)(0 := 0)\<rparr>)
      })"

definition rdpq_fence :: "env \<Rightarrow> rdpq \<Rightarrow> rdpq option" where
  "rdpq_fence K s = do {
     s \<leftarrow> rdpq_sync_full K 0 0 s;
     Some (rspq_int_write (RSPQ_CMD_RDP_WAIT_IDLE K) [] s)
   }"

text \<open>
  Modelled from the spec: the RSP microcode that keeps \<open>rdpq_state->sync_full\<close> is not
  part of the sources at hand. By section 4.6 the field is "a shadow copy of the
  last-executed SYNC_FULL": the two 32-bit words of the command as one 64-bit word, the
  first word in the upper half.
\<close>

definition sync_full_shadow :: "32 word \<Rightarrow> 32 word \<Rightarrow> 64 word" where
  "sync_full_shadow word0 word1 = push_bit 32 (ucast word0) OR ucast word1"

text \<open>
  \<open>__rdpq_interrupt\<close> reads the register \<open>SP_STATUS\<close> and the field \<open>sync_full\<close>, and
  acts on the machine: it writes \<open>SP_STATUS\<close> and calls the callback. Its model returns
  these actions in the order the handler performs them; \<open>None\<close> is the failed assertion.
\<close>

datatype hw_event =
  Memory_barrier
| SP_STATUS_write "32 word"
| Callback_call "32 word" "32 word"

definition rdpq_interrupt :: "env \<Rightarrow> 32 word \<Rightarrow> 64 word \<Rightarrow> hw_event list option" where
  "rdpq_interrupt K sp_status sync_full =
     (if sp_status AND SP_STATUS_SIG_RDPSYNCFULL K = 0 then None
      else
        let w0 = (ucast (drop_bit 32 sync_full AND 0x00FFFFFF) :: 32 word);
            w1 = (ucast (drop_bit 0 sync_full AND 0xFFFFFFFF) :: 32 word)
        in Some ([Memory_barrier, SP_STATUS_write (SP_WSTATUS_CLEAR_SIG_RDPSYNCFULL K)]
                 @ (if w0 \<noteq> 0
                    then [Callback_call (CachedAddr K (w0 OR 0x80000000)) w1]
                    else [])))"

subsection \<open>An instance for evaluation\<close>

text \<open>
  The statements below hold for every value of the parameters. To evaluate them, one
  instance: segment masks for the address macros, the payload eight bytes into the
  block, tile bits 0 to 7, TMEM bits 8 and 9, the pipe bit 16, and the sync opcodes of
  section 6 of the specification.
\<close>

definition sample_env :: env where
  "sample_env =
     \<lparr>PhysicalAddr = (\<lambda>a. a AND 0x1FFFFFFF),
      CachedAddr = (\<lambda>a. a AND NOT 0x20000000),
      SP_STATUS_SIG_RDPSYNCFULL = 0x800,
      SP_WSTATUS_CLEAR_SIG_RDPSYNCFULL = 0x40000,
      block_cmds = (\<lambda>b. b + 8),
      RSPQ_CMD_RDP = 0x09,
      RSPQ_CMD_RDP_WAIT_IDLE = 0x0A,
      RDPQ_CMD_SYNC_FULL = 0x29,
      RDPQ_CMD_SYNC_FULL_FIX = 0x2A,
      RDPQ_CMD_SYNC_PIPE = 0x27,
      RDPQ_CMD_SYNC_TILE = 0x28,
      RDPQ_CMD_SYNC_LOAD = 0x26,
      AUTOSYNC_TILES = 0xFF,
      AUTOSYNC_TMEMS = 0x300,
      AUTOSYNC_PIPE = 0x10000,
      RDPQ_CFG_AUTOSYNCPIPE = 0x1,
      RDPQ_CFG_AUTOSYNCLOAD = 0x2,
      RDPQ_CFG_AUTOSYNCTILE = 0x4\<rparr>"

text \<open>
  A state for evaluation: the file-scope variables as the program starts (all zero),
  after the assignments \<open>rdpq_init\<close> makes to them; an allocator that hands out
  addresses 64 KiB apart in the uncached segment; an empty CP stream.
\<close>

definition sample_state :: rdpq where
  "sample_state =
     \<lparr>rdpq_block_ptr = 0,
      rdpq_block_end_ptr = 0,
      rdpq_block_active = False,
      rdpq_config = 0x7,
      rdpq_autosync_state = (\<lambda>_. 0),
      rdpq_block = 0,
      rdpq_block_first = 0,
      rdpq_block_size = 0,
      last_rdp_cmd = None,
      heap = Map.empty,
      uncached_allocs = (\<lambda>n. 0xA0100000 + 0x10000 * of_nat n),
      uncached_count = 0,
      mem = (\<lambda>_. 0),
      rspq = []\<rparr>"

subsection \<open>Notions used to state the properties\<close>

text \<open>
  A class of resources is due for a sync in \<open>autosync_change res\<close> when a dirty bit
  of the class is in \<open>res\<close> and the class is enabled in the configuration.
\<close>

definition sync_due :: "32 word \<Rightarrow> rdpq \<Rightarrow> 32 word \<Rightarrow> 32 word \<Rightarrow> bool" where
  "sync_due res s cls cfg_flag =
     (res AND rdpq_autosync_state s 0 AND cls \<noteq> 0 \<and> ucast (rdpq_config s) AND cfg_flag \<noteq> 0)"

text \<open>The sync commands of the classes that are due, tile first, then load, then pipe.\<close>

definition autosync_cmds :: "env \<Rightarrow> 32 word \<Rightarrow> rdpq \<Rightarrow> 32 word list" where
  "autosync_cmds K res s =
     (if sync_due res s (AUTOSYNC_TILES K) (RDPQ_CFG_AUTOSYNCTILE K) then [RDPQ_CMD_SYNC_TILE K] else [])
     @ (if sync_due res s (AUTOSYNC_TMEMS K) (RDPQ_CFG_AUTOSYNCLOAD K) then [RDPQ_CMD_SYNC_LOAD K] else [])
     @ (if sync_due res s (AUTOSYNC_PIPE K) (RDPQ_CFG_AUTOSYNCPIPE K) then [RDPQ_CMD_SYNC_PIPE K] else [])"

text \<open>The dirty bits of the classes that are due.\<close>

definition autosync_cleared :: "env \<Rightarrow> 32 word \<Rightarrow> rdpq \<Rightarrow> 32 word" where
  "autosync_cleared K res s =
     (if sync_due res s (AUTOSYNC_TILES K) (RDPQ_CFG_AUTOSYNCTILE K) then AUTOSYNC_TILES K else 0)
     OR (if sync_due res s (AUTOSYNC_TMEMS K) (RDPQ_CFG_AUTOSYNCLOAD K) then AUTOSYNC_TMEMS K else 0)
     OR (if sync_due res s (AUTOSYNC_PIPE K) (RDPQ_CFG_AUTOSYNCPIPE K) then AUTOSYNC_PIPE K else 0)"

text \<open>Writing a list of commands without arguments, one \<open>__rdpq_write8\<close> after the other.\<close>

fun write8_all :: "env \<Rightarrow> 32 word list \<Rightarrow> rdpq \<Rightarrow> rdpq option" where
  "write8_all K [] s = Some s"
| "write8_all K (c # cs) s = rdpq_write8 K c 0 0 s \<bind> write8_all K cs"

text \<open>
  A flush extends the last submit when \<open>last_rdp_cmd\<close> points at the last two words of
  the CP stream (no other CP command has been written since) and the end pointer held
  in the low 24 bits of its first word is the physical start of the flush.
\<close>

definition extends_last_submit :: "env \<Rightarrow> 32 word \<Rightarrow> rdpq \<Rightarrow> bool" where
  "extends_last_submit K start s =
     (case last_rdp_cmd s of
        None \<Rightarrow> False
      | Some p \<Rightarrow> length (rspq s) = p + 2 \<and> (rspq s ! p) AND 0xFFFFFF = PhysicalAddr K start)"

text \<open>
  \<open>n\<close> buffer allocations in a row, as \<open>n\<close> overflows of a recording bring about; the
  result lists the number of command words of each buffer allocated.
\<close>

fun next_buffers :: "env \<Rightarrow> nat \<Rightarrow> rdpq \<Rightarrow> (nat list \<times> rdpq) option" where
  "next_buffers K 0 s = Some ([], s)"
| "next_buffers K (Suc n) s = do {
     s \<leftarrow> rdpq_block_next_buffer K s;
     blk \<leftarrow> heap s (rdpq_block s);
     (szs, s) \<leftarrow> next_buffers K n s;
     Some (cmds_words blk # szs, s)
   }"

text \<open>
  A recording under way, for evaluation: from \<open>sample_state\<close>, a draw has used tile 0,
  TMEM 0 and the pipe (\<open>autosync_use 0x10101\<close>), a block was begun, and one
  \<open>SYNC_PIPE\<close> has been written into it.
\<close>

definition sample_recording :: rdpq where
  "sample_recording =
     \<lparr>rdpq_block_ptr = 0xA0100010,
      rdpq_block_end_ptr = 0xA0100058,
      rdpq_block_active = True,
      rdpq_config = 0x7,
      rdpq_autosync_state = (\<lambda>_. 0)(1 := 0x10101, 0 := 0xFFFFFFFF),
      rdpq_block = 0xA0100000,
      rdpq_block_first = 0xA0100000,
      rdpq_block_size = 128,
      last_rdp_cmd = Some 0,
      heap = [0xA0100000 \<mapsto> \<lparr>next = 0, autosync_state = 0, cmds_words = 64\<rparr>],
      uncached_allocs = (\<lambda>n. 0xA0100000 + 0x10000 * of_nat n),
      uncached_count = 1,
      mem = (\<lambda>_. 0)(0xA0100008 := 0xE7000000, 0xA010000C := 0),
      rspq = [0x09100010, 0x00100008]\<rparr>"

text \<open>
  The sizes of the buffers of a block as the specification words them (section 3): the
  first holds 64 command words, each further one double the one before, none more
  than 4192.
\<close>

fun doubling :: "nat list \<Rightarrow> bool" where
  "doubling (a # b # szs) = (b = 2 * a \<and> doubling (b # szs))"
| "doubling szs = True"

definition spec_buffer_sizes :: "nat list \<Rightarrow> bool" where
  "spec_buffer_sizes szs =
     ((case szs of [] \<Rightarrow> True | a # _ \<Rightarrow> a = 64) \<and> doubling szs \<and> list_all (\<lambda>sz. sz \<le> 4192) szs)"

section \<open>Validator (rdpq_debug.c)\<close>

text \<open>
  The shadow state \<open>rdp\<close> of the validator, with the fields that \<open>use_tile\<close>,
  \<open>cc_use_tex1\<close> and \<open>mark_busy_tmem\<close> read or write, and the two counters of
  \<open>vctx\<close>. A C array is a function of the index; where the source indexes
  \<open>rdp.tile\<close> and \<open>rdp.busy.tile\<close>, which have 8 entries, the model checks the index,
  and an index outside \<open>0..7\<close> is the error value: the access has no defined behaviour
  in C. The fields \<open>size\<close> of a tile and \<open>tlut.enable\<close> of the other-modes are named
  \<open>size_f\<close> and \<open>tlut_enable\<close>. The extents \<open>t0\<close>, \<open>t1\<close> are floats holding
  multiples of 1/4, on which the arithmetic below is exact; they are real numbers here.
\<close>

record tile_s =
  fmt :: "8 word"
  size_f :: "8 word"
  pal :: "8 word"
  has_extents :: bool
  s0 :: real
  t0 :: real
  s1 :: real
  t1 :: real
  tmem_addr :: "16 word"
  tmem_pitch :: "16 word"

record setothermodes_t =
  cycle_type :: "8 word"
  tlut_enable :: bool
  sample_type :: "8 word"
  tf_mode :: "8 word"

record cc_slots =
  suba :: "8 word"
  subb :: "8 word"
  mul :: "8 word"
  add :: "8 word"

record cc_cycle_s =
  rgb :: cc_slots
  alpha :: cc_slots

record colorcombiner_t =
  cyc :: "nat \<Rightarrow> cc_cycle_s"

record rdp_t =
  busy_pipe :: bool
  busy_tile :: "nat \<Rightarrow> bool"
  busy_tmem :: "nat \<Rightarrow> 8 word"
  som :: setothermodes_t
  cc :: colorcombiner_t
  tile :: "nat \<Rightarrow> tile_s"
  errs :: int
  warns :: int

datatype array_error = Tile_index_out_of_bounds int

text \<open>\<open>BITS(v, b, e)\<close>: bits \<open>b\<close> to \<open>e\<close> of a 64-bit word, as an \<open>unsigned int\<close>.\<close>

definition BITS :: "64 word \<Rightarrow> nat \<Rightarrow> nat \<Rightarrow> 32 word" where
  "BITS v b e = ucast (drop_bit (63 - e + b) (push_bit (63 - e) v))"

text \<open>
  \<open>validate_emit_error\<close> prints a message and counts it; the model keeps the count.
  \<open>VALIDATE\<close> is the macro \<open>__VALIDATE(flags, cond, msg)\<close>; \<open>VALIDATE_ERR\<close> has flags
  0, \<open>VALIDATE_ERR_SOM\<close> flags 2.
\<close>

definition validate_emit_error :: "int \<Rightarrow> rdp_t \<Rightarrow> rdp_t" where
  "validate_emit_error flags v =
     (if flags AND 1 \<noteq> 0 then v\<lparr>warns := warns v + 1\<rparr> else v\<lparr>errs := errs v + 1\<rparr>)"

definition VALIDATE :: "int \<Rightarrow> bool \<Rightarrow> rdp_t \<Rightarrow> rdp_t" where
  "VALIDATE flags cond v = (if \<not> cond then validate_emit_error flags v else v)"

definition VALIDATE_ERR :: "bool \<Rightarrow> rdp_t \<Rightarrow> rdp_t" where
  "VALIDATE_ERR cond v = VALIDATE 0 cond v"

definition VALIDATE_ERR_SOM :: "bool \<Rightarrow> rdp_t \<Rightarrow> rdp_t" where
  "VALIDATE_ERR_SOM cond v = VALIDATE 2 cond v"

definition cc_use_tex1 :: "rdp_t \<Rightarrow> bool" where
  "cc_use_tex1 v =
     (let c = cyc (cc v)
      in if cycle_type (som v) \<noteq> 1 then False
         else if tf_mode (som v) AND 3 = 1 then False
         else (suba (rgb (c 0)) = 2 \<or> subb (rgb (c 0)) = 2 \<or> mul (rgb (c 0)) = 2
                 \<or> mul (rgb (c 0)) = 9 \<or> add (rgb (c 0)) = 2)
              \<or> (suba (rgb (c 1)) = 1 \<or> subb (rgb (c 1)) = 1 \<or> mul (rgb (c 1)) = 1
                 \<or> mul (rgb (c 0)) = 8 \<or> add (rgb (c 1)) = 1))"

text \<open>Division of C \<open>int\<close>s, and the conversion of a float to \<open>int\<close>: both truncate.\<close>

definition c_div :: "int \<Rightarrow> int \<Rightarrow> int" where
  "c_div a b = sgn a * sgn b * (\<bar>a\<bar> div \<bar>b\<bar>)"

definition c_trunc :: "real \<Rightarrow> int" where
  "c_trunc r = (if 0 \<le> r then \<lfloor>r\<rfloor> else \<lceil>r\<rceil>)"

text \<open>
  The three loops of \<open>mark_busy_tmem\<close>, on the bit array and the counter \<open>x\<close>. The
  callers pass addresses that are not negative.
\<close>

function mark_head :: "(nat \<Rightarrow> 8 word) \<Rightarrow> int \<Rightarrow> int \<Rightarrow> (nat \<Rightarrow> 8 word) \<times> int" where
  "mark_head tm x x1 =
     (if x AND 7 \<noteq> 0 \<and> x < x1
      then mark_head (tm(nat (c_div x 8) := tm (nat (c_div x 8)) OR push_bit (nat (x AND 7)) 1))
             (x + 1) x1
      else (tm, x))"
  by pat_completeness auto
termination
  by (relation "measure (\<lambda>(tm, x, x1). nat (x1 - x))") auto

function mark_bytes :: "(nat \<Rightarrow> 8 word) \<Rightarrow> int \<Rightarrow> int \<Rightarrow> (nat \<Rightarrow> 8 word) \<times> int" where
  "mark_bytes tm x x1 =
     (if x + 8 < x1
      then mark_bytes (tm(nat (c_div x 8) := 0xFF)) (x + 8) x1
      else (tm, x))"
  by pat_completeness auto
termination
  by (relation "measure (\<lambda>(tm, x, x1). nat (x1 - x))") auto

function mark_tail :: "(nat \<Rightarrow> 8 word) \<Rightarrow> int \<Rightarrow> int \<Rightarrow> (nat \<Rightarrow> 8 word) \<times> int" where
  "mark_tail tm x x1 =
     (if x < x1
      then mark_tail (tm(nat (c_div x 8) := tm (nat (c_div x 8)) OR push_bit (nat (x AND 7)) 1))
             (x + 1) x1
      else (tm, x))"
  by pat_completeness auto
termination
  by (relation "measure (\<lambda>(tm, x, x1). nat (x1 - x))") auto

definition mark_busy_tmem :: "int \<Rightarrow> int \<Rightarrow> rdp_t \<Rightarrow> rdp_t" where
  "mark_busy_tmem addr sz v =
     (let x0 = c_div (min addr 0x1000) 8;
          x1 = c_div (min (addr + sz) 0x1000) 8;
          (tm, x) = mark_head (busy_tmem v) x0 x1;
          (tm, x) = mark_bytes tm x x1;
          (tm, x) = mark_tail tm x x1
      in v\<lparr>busy_tmem := tm\<rparr>)"

text \<open>
  \<open>use_tile\<close>, in two parts: \<open>use_tile_body\<close> is the function up to its last
  statement, for a tile index inside the arrays; \<open>use_tile\<close> is the function with the
  accesses \<open>rdp.tile[tidx]\<close> and \<open>rdp.busy.tile[tidx]\<close> checked and with the last
  statement, the recursive call for the second texture. That call is made with
  \<open>cycle = 1\<close> and only from \<open>cycle = 0\<close>.
\<close>

definition use_tile_body :: "int \<Rightarrow> int \<Rightarrow> rdp_t \<Rightarrow> rdp_t" where
  "use_tile_body tidx cycle v =
     (let t = tile v (nat tidx);
          v = VALIDATE_ERR (has_extents t) v;
          v = v\<lparr>busy_tile := (busy_tile v)(nat tidx := True)\<rparr>;
          v = (if cycle_type (som v) < 2
               then if fmt t = 1
                    then let v = VALIDATE_ERR_SOM
                                   (\<not> (tf_mode (som v) AND drop_bit (nat cycle) 4 \<noteq> 0)) v
                         in if sample_type (som v) > 1
                            then let v = VALIDATE_ERR_SOM
                                           (tf_mode (som v) = 6 \<and> cycle_type (som v) = 1) v
                                 in VALIDATE_ERR_SOM (cycle_type (som v) = 1) v
                            else v
                    else VALIDATE_ERR_SOM (tf_mode (som v) AND drop_bit (nat cycle) 4 \<noteq> 0) v
               else v);
          v = (if fmt t = 2 then VALIDATE_ERR_SOM (tlut_enable (som v)) v
               else VALIDATE_ERR_SOM (\<not> tlut_enable (som v)) v);
          extent = (t1 t - t0 t + 1) * real_of_int (sint (tmem_pitch t))
      in if fmt t = 0 \<or> fmt t = 3 \<or> fmt t = 4
         then if size_f t = 3
              then mark_busy_tmem (sint (tmem_addr t) + 0x800) (c_trunc (extent / 2))
                     (mark_busy_tmem (sint (tmem_addr t)) (c_trunc (extent / 2)) v)
              else mark_busy_tmem (sint (tmem_addr t)) (c_trunc extent) v
         else if fmt t = 1
         then mark_busy_tmem (sint (tmem_addr t) + 0x800) (c_trunc (extent / 2))
                (mark_busy_tmem (sint (tmem_addr t)) (c_trunc (extent / 2)) v)
         else if fmt t = 2
         then let v = mark_busy_tmem (sint (tmem_addr t)) (c_trunc extent) v;
                  v = (if size_f t = 0
                       then mark_busy_tmem (0x800 + uint (pal t) * 64) 64 v else v)
              in if size_f t = 1 then mark_busy_tmem 0x800 0x800 v else v
         else v)"

function use_tile :: "int \<Rightarrow> int \<Rightarrow> rdp_t \<Rightarrow> array_error + rdp_t" where
  "use_tile tidx cycle v =
     (if tidx < 0 \<or> 8 \<le> tidx then Inl (Tile_index_out_of_bounds tidx)
      else
        let v = use_tile_body tidx cycle v
        in if cycle = 0 \<and> cc_use_tex1 v then use_tile (tidx + 1) 1 v else Inr v)"
  by pat_completeness auto
termination
  by (relation "measure (\<lambda>(tidx, cycle, v). if cycle = 0 then 1 else 0)") auto

text \<open>
  A validator state for evaluation: the all-zero \<open>rdp\<close> of program start, after a
  \<open>SET_OTHER_MODES\<close> selecting two-cycle mode with texture filter mode 6, a
  \<open>SET_COMBINE\<close> whose cycle 0 subtracts from the \<open>TEX1\<close> slot (\<open>suba = 2\<close>), and
  \<open>SET_TILE_SIZE\<close> for tiles 6 and 7.
\<close>

definition zero_slots :: cc_slots where
  "zero_slots = \<lparr>suba = 0, subb = 0, mul = 0, add = 0\<rparr>"

definition zero_tile :: tile_s where
  "zero_tile = \<lparr>fmt = 0, size_f = 0, pal = 0, has_extents = False,
                s0 = 0, t0 = 0, s1 = 0, t1 = 0, tmem_addr = 0, tmem_pitch = 0\<rparr>"

definition sample_rdp :: rdp_t where
  "sample_rdp =
     \<lparr>busy_pipe = True,
      busy_tile = (\<lambda>_. False),
      busy_tmem = (\<lambda>_. 0),
      som = \<lparr>cycle_type = 1, tlut_enable = False, sample_type = 0, tf_mode = 6\<rparr>,
      cc = \<lparr>cyc = (\<lambda>_. \<lparr>rgb = zero_slots, alpha = zero_slots\<rparr>)
                     (0 := \<lparr>rgb = zero_slots\<lparr>suba := 2\<rparr>, alpha = zero_slots\<rparr>)\<rparr>,
      tile = (\<lambda>_. zero_tile)(6 := zero_tile\<lparr>has_extents := True\<rparr>,
                               7 := zero_tile\<lparr>has_extents := True\<rparr>),
      errs = 0,
      warns = 0\<rparr>"

chapter \<open>Properties\<close>

section \<open>Properties of the fixed-point conversion\<close>

lemma sint_word_of_int_32:
  assumes "- 2147483648 \<le> k" "k < 2147483648"
  shows "sint (word_of_int k :: 32 word) = k"
proof -
  have "(k + 2147483648) mod 4294967296 = k + 2147483648"
    using assms by (intro mod_pos_pos_trivial) auto
  then show ?thesis by (simp add: int_word_sint)
qed

lemma sint_floor_in_range:
  fixes f :: real
  assumes "- 32768 \<le> f" "f < 32768"
  shows "sint (word_of_int \<lfloor>f * 65536\<rfloor> :: 32 word) = \<lfloor>f * 65536\<rfloor>"
    and "- 2147483648 \<le> \<lfloor>f * 65536\<rfloor>" and "\<lfloor>f * 65536\<rfloor> \<le> 2147483647"
proof -
  show lo: "- 2147483648 \<le> \<lfloor>f * 65536\<rfloor>"
    using assms(1) by (simp add: le_floor_iff)
  have hi: "\<lfloor>f * 65536\<rfloor> < 2147483648"
    using assms(2) by (simp add: floor_less_iff)
  then show "\<lfloor>f * 65536\<rfloor> \<le> 2147483647" by simp
  show "sint (word_of_int \<lfloor>f * 65536\<rfloor> :: 32 word) = \<lfloor>f * 65536\<rfloor>"
    using lo hi by (rule sint_word_of_int_32)
qed

text \<open>The signed value of the result is the floor, clamped to the \<open>int32_t\<close> range.\<close>

lemma sint_float_to_s16_16:
  "sint (float_to_s16_16 x) = max (- 2147483648) (min 2147483647 \<lfloor>x * 65536\<rfloor>)"
proof -
  consider "32768 \<le> x" | "x < - 32768" | "- 32768 \<le> x" "x < 32768" by linarith
  then show ?thesis
  proof cases
    case 1
    then have "2147483648 \<le> \<lfloor>x * 65536\<rfloor>" by (simp add: le_floor_iff)
    with 1 show ?thesis by (simp add: float_to_s16_16_def)
  next
    case 2
    then have "\<lfloor>x * 65536\<rfloor> < - 2147483648" by (simp add: floor_less_iff)
    with 2 show ?thesis by (simp add: float_to_s16_16_def)
  next
    case 3
    then show ?thesis
      using sint_floor_in_range [OF 3] by (simp add: float_to_s16_16_def)
  qed
qed

text \<open>
  Claim C8. \<open>float_to_s16_16\<close> is monotone non-decreasing (as a signed 32-bit value);
  on \<open>[-32768, 32768)\<close> it returns \<open>floor (x * 65536)\<close>; for every \<open>x \<ge> 32768\<close> it
  returns \<open>0x7FFFFFFF\<close>, and for every \<open>x < -32768\<close> it returns \<open>0x80000000\<close>.
\<close>

theorem float_to_s16_16_monotone_saturating:
  "(x \<le> y \<longrightarrow> sint (float_to_s16_16 x) \<le> sint (float_to_s16_16 y))
   \<and> (- 32768 \<le> x \<and> x < 32768 \<longrightarrow> sint (float_to_s16_16 x) = \<lfloor>x * 65536\<rfloor>)
   \<and> (32768 \<le> x \<longrightarrow> float_to_s16_16 x = 0x7FFFFFFF)
   \<and> (x < - 32768 \<longrightarrow> float_to_s16_16 x = 0x80000000)"
proof (intro conjI impI)
  assume "x \<le> y"
  then have "\<lfloor>x * 65536\<rfloor> \<le> \<lfloor>y * 65536\<rfloor>" by (simp add: floor_mono)
  then show "sint (float_to_s16_16 x) \<le> sint (float_to_s16_16 y)"
    unfolding sint_float_to_s16_16 by linarith
next
  assume "- 32768 \<le> x \<and> x < 32768"
  then show "sint (float_to_s16_16 x) = \<lfloor>x * 65536\<rfloor>"
    using sint_floor_in_range(1) [of x] by (simp add: float_to_s16_16_def)
qed (simp_all add: float_to_s16_16_def)

theorem float_to_s16_16_monotone_saturating_witness:
  "((1/2 :: real) \<le> 3/4 \<and> sint (float_to_s16_16 (1/2)) \<le> sint (float_to_s16_16 (3/4)))
   \<and> (- 32768 \<le> (- 1/3 :: real) \<and> (- 1/3 :: real) < 32768
        \<and> sint (float_to_s16_16 (- 1/3)) = - 21846)
   \<and> ((32768::real) \<le> 40000 \<and> float_to_s16_16 40000 = 0x7FFFFFFF)
   \<and> ((- 32769::real) < - 32768 \<and> float_to_s16_16 (- 32769) = 0x80000000)"
  using float_to_s16_16_monotone_saturating [of "1/2" "3/4"]
    float_to_s16_16_monotone_saturating [of "- 1/3" 0]
    float_to_s16_16_monotone_saturating [of 40000 40000]
    float_to_s16_16_monotone_saturating [of "- 32769" 0]
  by simp

section \<open>Properties of the triangle coefficients\<close>

lemma rdpq_triangle_sort_cases:
  assumes "rdpq_triangle_sort p v1 v2 v3 = (a, b, c)"
  shows "(a, b, c) \<in> {(v1, v2, v3), (v1, v3, v2), (v2, v1, v3), (v2, v3, v1), (v3, v1, v2), (v3, v2, v1)}"
    and "a ! (p + 1) \<le> b ! (p + 1)" and "b ! (p + 1) \<le> c ! (p + 1)"
  using assms by (auto simp: rdpq_triangle_sort_def Let_def split: if_splits)

lemma edge_data_my_hy:
  "my (fst (rdpq_write_edge_coeffs tid level v1 v2 v3)) = of_int \<lfloor>v2 ! 1 * 4\<rfloor> / 4 - of_int \<lfloor>v1 ! 1 * 4\<rfloor> / 4"
  "hy (fst (rdpq_write_edge_coeffs tid level v1 v2 v3)) = of_int \<lfloor>v3 ! 1 * 4\<rfloor> / 4 - of_int \<lfloor>v1 ! 1 * 4\<rfloor> / 4"
  by (simp_all add: rdpq_write_edge_coeffs_def Let_def)

text \<open>
  Claim C1, as amended. \<open>rdpq_triangle\<close> reorders the three vertices by comparing the raw
  float Y values \<open>v[pos_offset + 1]\<close>. The result is a permutation of the input whose
  raw Y values are non-decreasing; since quantization to 10.2 (\<open>floor (4 * y)\<close>) is
  monotone, the quantized Y values are non-decreasing as well, and the edge data computed
  from them has \<open>0 \<le> my \<le> hy\<close>, that is \<open>y1 \<le> y2 \<le> y3\<close>.
\<close>

theorem rdpq_triangle_sort_raw_y:
  assumes "rdpq_triangle_sort p v1 v2 v3 = (a, b, c)"
    and "p + 1 < length v1" and "p + 1 < length v2" and "p + 1 < length v3"
  shows "(a, b, c) \<in> {(v1, v2, v3), (v1, v3, v2), (v2, v1, v3), (v2, v3, v1), (v3, v1, v2), (v3, v2, v1)}
    \<and> a ! (p + 1) \<le> b ! (p + 1) \<and> b ! (p + 1) \<le> c ! (p + 1)
    \<and> \<lfloor>a ! (p + 1) * 4\<rfloor> \<le> \<lfloor>b ! (p + 1) * 4\<rfloor> \<and> \<lfloor>b ! (p + 1) * 4\<rfloor> \<le> \<lfloor>c ! (p + 1) * 4\<rfloor>
    \<and> 0 \<le> my (fst (rdpq_write_edge_coeffs tid level (drop p a) (drop p b) (drop p c)))
    \<and> my (fst (rdpq_write_edge_coeffs tid level (drop p a) (drop p b) (drop p c)))
        \<le> hy (fst (rdpq_write_edge_coeffs tid level (drop p a) (drop p b) (drop p c)))"
proof -
  note s = rdpq_triangle_sort_cases [OF assms(1)]
  have len: "p + 1 < length a" "p + 1 < length b" "p + 1 < length c"
    using s(1) assms(2-4) by auto
  have q: "\<lfloor>a ! (p + 1) * 4\<rfloor> \<le> \<lfloor>b ! (p + 1) * 4\<rfloor>" "\<lfloor>b ! (p + 1) * 4\<rfloor> \<le> \<lfloor>c ! (p + 1) * 4\<rfloor>"
    using s(2,3) by (simp_all add: floor_mono)
  have d: "drop p a ! 1 = a ! (p + 1)" "drop p b ! 1 = b ! (p + 1)" "drop p c ! 1 = c ! (p + 1)"
    using len by simp_all
  have e: "0 \<le> my (fst (rdpq_write_edge_coeffs tid level (drop p a) (drop p b) (drop p c)))"
    unfolding edge_data_my_hy d using q(1) by (simp add: divide_right_mono)
  have f: "my (fst (rdpq_write_edge_coeffs tid level (drop p a) (drop p b) (drop p c)))
        \<le> hy (fst (rdpq_write_edge_coeffs tid level (drop p a) (drop p b) (drop p c)))"
    unfolding edge_data_my_hy d using q(2) by (simp add: divide_right_mono)
  show ?thesis using s q e f by blast
qed

theorem rdpq_triangle_sort_raw_y_witness:
  "rdpq_triangle_sort 0 [0, 1/8] [1, 0] [2, 1] = ([1, 0], [0, 1/8], [2, 1])
   \<and> (0::nat) + 1 < length [0, 1/8 :: real] \<and> (0::nat) + 1 < length [1, 0 :: real] \<and> (0::nat) + 1 < length [2, 1 :: real]
   \<and> [1, 0 :: real] ! (0 + 1) \<le> [0, 1/8] ! (0 + 1)
   \<and> \<lfloor>[1, 0 :: real] ! (0 + 1) * 4\<rfloor> \<le> \<lfloor>[0, 1/8 :: real] ! (0 + 1) * 4\<rfloor>
   \<and> 0 \<le> my (fst (rdpq_write_edge_coeffs 0 0 (drop 0 [1, 0]) (drop 0 [0, 1/8]) (drop 0 [2, 1])))"
proof -
  have s: "rdpq_triangle_sort 0 [0, 1/8] [1, 0] [2, 1] = ([1, 0], [0, 1/8], [2, 1])"
    by (simp add: rdpq_triangle_sort_def)
  show ?thesis
    using rdpq_triangle_sort_raw_y [OF s, of 0 0] s by simp
qed

text \<open>
  Claim C1, as stated, fails: the comparisons are not made on the quantized values. Two
  vertices whose Y values 1/8 and 0 quantize to the same 10.2 value are exchanged by the
  source, and left in place by a sort on the quantized values.
\<close>

theorem rdpq_triangle_sort_not_on_quantized_y:
  "\<lfloor>[0, 1/8 :: real] ! (0 + 1) * 4\<rfloor> = \<lfloor>[1, 0 :: real] ! (0 + 1) * 4\<rfloor>
   \<and> spec_sort_quantized_y 0 [0, 1/8] [1, 0] [2, 1] = ([0, 1/8], [1, 0], [2, 1])
   \<and> rdpq_triangle_sort 0 [0, 1/8] [1, 0] [2, 1] = ([1, 0], [0, 1/8], [2, 1])
   \<and> rdpq_triangle_sort 0 [0, 1/8] [1, 0] [2, 1] \<noteq> spec_sort_quantized_y 0 [0, 1/8] [1, 0] [2, 1]"
  by (simp add: rdpq_triangle_sort_def spec_sort_quantized_y_def)

text \<open>
  Claim C2 at a concrete shaded triangle. The positions are (0,0), (0,1), (1,1) and only
  the middle vertex has colour: green 1/2, alpha 1/4. Every float operation on these
  values is exact. The per-Y slopes are DgDy = 1/2 and DaDy = 1/4, in s16.16
  \<open>0x00008000\<close> and \<open>0x00004000\<close>, whose low 16 bits are \<open>0x8000\<close> and \<open>0x4000\<close>;
  the last two words written carry 1 in their low halves instead.
\<close>

theorem shade_low_half_logical_and:
  "DgDy_fixed (shade_coeffs_fixed (fst (rdpq_write_edge_coeffs 0 0 [0, 0] [0, 1] [1, 1]))
       [0, 0, 0, 0] [0, 1/2, 0, 1/4] [0, 0, 0, 0]) = 0x8000
   \<and> DaDy_fixed (shade_coeffs_fixed (fst (rdpq_write_edge_coeffs 0 0 [0, 0] [0, 1] [1, 1]))
       [0, 0, 0, 0] [0, 1/2, 0, 1/4] [0, 0, 0, 0]) = 0x4000
   \<and> drop 22 (rdpq_triangle_shaded 0 0 0 2 [0, 0, 0, 0, 0, 0] [0, 1, 0, 1/2, 0, 1/4] [1, 1, 0, 0, 0, 0])
       = [0x00000001, 0x00000001]"
  by (simp add: rdpq_triangle_shaded_def rdpq_triangle_sort_def rdpq_write_edge_coeffs_def
     rdpq_write_shade_coeffs_def shade_coeffs_pack_def shade_coeffs_fixed_def float_to_s16_16_def
     FLT_MIN_def c_logand_def Let_def)



lemma hi_pair_bits:
  fixes a b :: "32 word"
  shows "drop_bit 16 ((a AND 0xffff0000) OR (0xffff AND signed_drop_bit 16 b)) = drop_bit 16 a"
    and "take_bit 16 ((a AND 0xffff0000) OR (0xffff AND signed_drop_bit 16 b)) = drop_bit 16 b"
proof -
  have m1: "(0xffff0000 :: 32 word) = push_bit 16 (mask 16)" by (simp add: mask_eq_exp_minus_1)
  have m2: "(0xffff :: 32 word) = mask 16" by (simp add: mask_eq_exp_minus_1)
  show "drop_bit 16 ((a AND 0xffff0000) OR (0xffff AND signed_drop_bit 16 b)) = drop_bit 16 a"
    unfolding m1 m2 by (rule bit_word_eqI) (auto simp: bit_simps dest: bit_imp_le_length)
  show "take_bit 16 ((a AND 0xffff0000) OR (0xffff AND signed_drop_bit 16 b)) = drop_bit 16 b"
    unfolding m1 m2 by (rule bit_word_eqI) (auto simp: bit_simps dest: bit_imp_le_length)
qed

lemma lo_pair_logand_bits:
  fixes a b :: "32 word"
  shows "drop_bit 16 (push_bit 16 a OR c_logand b 0xffff) = take_bit 16 a"
    and "take_bit 16 (push_bit 16 a OR c_logand b 0xffff) = (if b = 0 then 0 else 1)"
proof -
  show "drop_bit 16 (push_bit 16 a OR c_logand b 0xffff) = take_bit 16 a"
    by (rule bit_word_eqI) (auto simp: bit_simps c_logand_def)
  show "take_bit 16 (push_bit 16 a OR c_logand b 0xffff) = (if b = 0 then 0 else 1)"
    by (rule bit_word_eqI) (auto simp: bit_simps c_logand_def)
qed

lemma shade_coeffs_pack_dy_words:
  "shade_coeffs_pack c ! 10 = (DrDy_fixed c AND 0xffff0000) OR (0xffff AND signed_drop_bit 16 (DgDy_fixed c))"
  "shade_coeffs_pack c ! 11 = (DbDy_fixed c AND 0xffff0000) OR (0xffff AND signed_drop_bit 16 (DaDy_fixed c))"
  "shade_coeffs_pack c ! 14 = push_bit 16 (DrDy_fixed c) OR c_logand (DgDy_fixed c) 0xffff"
  "shade_coeffs_pack c ! 15 = push_bit 16 (DbDy_fixed c) OR c_logand (DaDy_fixed c) 0xffff"
  by (simp_all add: shade_coeffs_pack_def)

lemma shade_pack_dy_high_halves:
  "drop_bit 16 (shade_coeffs_pack c ! 10) = drop_bit 16 (DrDy_fixed c)"
  "take_bit 16 (shade_coeffs_pack c ! 10) = drop_bit 16 (DgDy_fixed c)"
  "drop_bit 16 (shade_coeffs_pack c ! 11) = drop_bit 16 (DbDy_fixed c)"
  "take_bit 16 (shade_coeffs_pack c ! 11) = drop_bit 16 (DaDy_fixed c)"
  unfolding shade_coeffs_pack_dy_words by (rule hi_pair_bits)+

lemma shade_pack_dy_low_halves:
  "drop_bit 16 (shade_coeffs_pack c ! 14) = take_bit 16 (DrDy_fixed c)"
  "take_bit 16 (shade_coeffs_pack c ! 14) = (if DgDy_fixed c = 0 then 0 else 1)"
  "drop_bit 16 (shade_coeffs_pack c ! 15) = take_bit 16 (DbDy_fixed c)"
  "take_bit 16 (shade_coeffs_pack c ! 15) = (if DaDy_fixed c = 0 then 0 else 1)"
  unfolding shade_coeffs_pack_dy_words by (rule lo_pair_logand_bits)+

section \<open>Properties of the block recorder\<close>

lemmas sample_defs = sample_env_def sample_state_def sample_recording_def

lemmas alloc_defs = rdpq_block_next_buffer_def malloc_uncached_def set_next_def
  rdpq_block_switch_buffer_def rdpq_block_flush_def rspq_int_write_def rspq_write_def
  RDPQ_BLOCK_MIN_SIZE_def RDPQ_BLOCK_MAX_SIZE_def RDPQ_MAX_COMMAND_SIZE_def Let_def

lemmas write_defs = rdpq_write8_def rdpq_write_def in_block_def rdpq_block_check_def
  rdpq_static_write_def rdpq_dynamic_write_def RDPQ_OVL_ID_def

text \<open>The sample recording is the state the functions reach.\<close>

lemma sample_recording_reached:
  "rdpq_write8 sample_env (RDPQ_CMD_SYNC_PIPE sample_env) 0 0
     (rdpq_block_begin (autosync_use 0x10101 sample_state)) = Some sample_recording"
  by (simp add: write_defs alloc_defs sample_defs rdpq_block_begin_def autosync_use_def)

subsection \<open>The dirty mask across the life of a block\<close>

lemma rdpq_block_begin_simps:
  "rdpq_autosync_state (rdpq_block_begin s) 0 = 0xFFFFFFFF"
  "rdpq_autosync_state (rdpq_block_begin s) (Suc 0) = rdpq_autosync_state s 0"
  "rdpq_block_active (rdpq_block_begin s) = True"
  "rdpq_block (rdpq_block_begin s) = 0"
  "rdpq_block_first (rdpq_block_begin s) = 0"
  "last_rdp_cmd (rdpq_block_begin s) = None"
  "rdpq_block_size (rdpq_block_begin s) = 64"
  "heap (rdpq_block_begin s) = heap s"
  "rspq (rdpq_block_begin s) = rspq s"
  by (simp_all add: rdpq_block_begin_def RDPQ_BLOCK_MIN_SIZE_def Let_def)

lemma rdpq_block_end_nonnull:
  assumes "rdpq_block_first t \<noteq> 0" "heap t (rdpq_block_first t) = Some blk"
  shows "rdpq_block_end t = Some (rdpq_block_first t,
           t\<lparr>rdpq_block_active := False,
             heap := (heap t)(rdpq_block_first t \<mapsto> blk\<lparr>autosync_state := rdpq_autosync_state t 0\<rparr>),
             rdpq_autosync_state := (rdpq_autosync_state t)(0 := rdpq_autosync_state t 1),
             rdpq_block_first := 0, rdpq_block := 0, last_rdp_cmd := None\<rparr>)"
  using assms by (simp add: rdpq_block_end_def set_autosync_state_def Let_def)

lemma rdpq_block_end_null:
  assumes "rdpq_block_first t = 0"
  shows "rdpq_block_end t = Some (0,
           t\<lparr>rdpq_block_active := False,
             rdpq_autosync_state := (rdpq_autosync_state t)(0 := rdpq_autosync_state t 1),
             rdpq_block_first := 0, rdpq_block := 0, last_rdp_cmd := None\<rparr>)"
  using assms by (simp add: rdpq_block_end_def Let_def)

text \<open>
  Claim C4. Beginning a recording saves the dirty mask (slot 0) in slot 1 and sets the
  working mask to all-ones; ending it stores the working mask into the block handed
  back and restores the working mask from slot 1; running a block loads the mask
  recorded in that block.
\<close>

theorem autosync_mask_block_lifecycle:
  "rdpq_autosync_state (rdpq_block_begin s) 1 = rdpq_autosync_state s 0
   \<and> rdpq_autosync_state (rdpq_block_begin s) 0 = 0xFFFFFFFF
   \<and> (rdpq_block_first t \<noteq> 0 \<and> heap t (rdpq_block_first t) = Some blk \<longrightarrow>
        (\<exists>t'. rdpq_block_end t = Some (rdpq_block_first t, t')
           \<and> heap t' (rdpq_block_first t) = Some (blk\<lparr>autosync_state := rdpq_autosync_state t 0\<rparr>)
           \<and> rdpq_autosync_state t' 0 = rdpq_autosync_state t 1))
   \<and> (block \<noteq> 0 \<and> heap u block = Some b \<longrightarrow>
        (\<exists>u'. rdpq_block_run block u = Some u'
           \<and> rdpq_autosync_state u' 0 = autosync_state b))"
proof (intro conjI impI)
  assume "rdpq_block_first t \<noteq> 0 \<and> heap t (rdpq_block_first t) = Some blk"
  then show "\<exists>t'. rdpq_block_end t = Some (rdpq_block_first t, t')
           \<and> heap t' (rdpq_block_first t) = Some (blk\<lparr>autosync_state := rdpq_autosync_state t 0\<rparr>)
           \<and> rdpq_autosync_state t' 0 = rdpq_autosync_state t 1"
    by (simp add: rdpq_block_end_nonnull)
next
  assume "block \<noteq> 0 \<and> heap u block = Some b"
  then show "\<exists>u'. rdpq_block_run block u = Some u' \<and> rdpq_autosync_state u' 0 = autosync_state b"
    by (simp add: rdpq_block_run_def)
qed (simp_all add: rdpq_block_begin_simps)

theorem autosync_mask_block_lifecycle_witness:
  "rdpq_block_first sample_recording \<noteq> 0
   \<and> heap sample_recording (rdpq_block_first sample_recording)
       = Some \<lparr>next = 0, autosync_state = 0, cmds_words = 64\<rparr>
   \<and> (\<exists>t'. rdpq_block_end sample_recording = Some (0xA0100000, t')
         \<and> heap t' 0xA0100000 = Some \<lparr>next = 0, autosync_state = 0xFFFFFFFF, cmds_words = 64\<rparr>
         \<and> rdpq_autosync_state t' 0 = 0x10101)
   \<and> (0xA0100000 :: 32 word) \<noteq> 0
   \<and> heap (sample_state\<lparr>heap := [0xA0100000 \<mapsto> \<lparr>next = 0, autosync_state = 0xFFFFFFFF, cmds_words = 64\<rparr>]\<rparr>)
        0xA0100000 = Some \<lparr>next = 0, autosync_state = 0xFFFFFFFF, cmds_words = 64\<rparr>
   \<and> (\<exists>u'. rdpq_block_run 0xA0100000
          (sample_state\<lparr>heap := [0xA0100000 \<mapsto> \<lparr>next = 0, autosync_state = 0xFFFFFFFF, cmds_words = 64\<rparr>]\<rparr>)
          = Some u' \<and> rdpq_autosync_state u' 0 = 0xFFFFFFFF)"
  using autosync_mask_block_lifecycle
    [of sample_state sample_recording "\<lparr>next = 0, autosync_state = 0, cmds_words = 64\<rparr>"
        "0xA0100000"
        "sample_state\<lparr>heap := [0xA0100000 \<mapsto> \<lparr>next = 0, autosync_state = 0xFFFFFFFF, cmds_words = 64\<rparr>]\<rparr>"
        "\<lparr>next = 0, autosync_state = 0xFFFFFFFF, cmds_words = 64\<rparr>"]
  by (simp add: sample_defs)

subsection \<open>Submission coalescing\<close>



lemma low24_of_submit_word:
  fixes c e :: "32 word"
  assumes "e < 2 ^ 24"
  shows "(push_bit 24 c OR e) AND 0xFFFFFF = e"
proof -
  have m: "(0xFFFFFF :: 32 word) = mask 24" by (simp add: mask_eq_exp_minus_1)
  have 1: "push_bit 24 c AND mask 24 = (0 :: 32 word)"
    by (rule bit_word_eqI) (auto simp: bit_simps)
  have 2: "e AND mask 24 = e" using assms by (rule less_mask_eq)
  show ?thesis unfolding m by (simp add: word_ao_dist 1 2)
qed

lemma rdpq_block_flush_patch:
  assumes "start AND 7 = 0" "end AND 7 = 0" "extends_last_submit K start s"
  shows "rdpq_block_flush K start end s =
     Some (s\<lparr>rspq := (rspq s)[the (last_rdp_cmd s) :=
                push_bit 24 (RSPQ_CMD_RDP K) OR PhysicalAddr K end]\<rparr>)"
  using assms
  by (auto simp: rdpq_block_flush_def extends_last_submit_def Let_def split: option.splits)

lemma rdpq_block_flush_fresh:
  assumes "start AND 7 = 0" "end AND 7 = 0" "\<not> extends_last_submit K start s"
  shows "rdpq_block_flush K start end s =
     Some (s\<lparr>last_rdp_cmd := Some (length (rspq s)),
            rspq := rspq s @ [push_bit 24 (RSPQ_CMD_RDP K) OR PhysicalAddr K end,
                              PhysicalAddr K start]\<rparr>)"
  using assms
  by (auto simp: rdpq_block_flush_def extends_last_submit_def rspq_int_write_def rspq_write_def
      Let_def split: option.splits)

text \<open>
  After any flush that ends at an address below 16 MiB, the submit that
  \<open>last_rdp_cmd\<close> points at is the last thing in the stream and records that end:
  a flush that starts there extends it.
\<close>

lemma extends_after_flush:
  assumes "rdpq_block_flush K start end s = Some sa" "PhysicalAddr K end < 2 ^ 24"
  shows "extends_last_submit K end sa"
proof -
  have al: "start AND 7 = 0" "end AND 7 = 0"
    using assms(1) by (auto simp: rdpq_block_flush_def split: if_splits)
  show ?thesis
  proof (cases "extends_last_submit K start s")
    case True
    then obtain p where p: "last_rdp_cmd s = Some p" "length (rspq s) = p + 2"
      by (auto simp: extends_last_submit_def split: option.splits)
    have "sa = s\<lparr>rspq := (rspq s)[p := push_bit 24 (RSPQ_CMD_RDP K) OR PhysicalAddr K end]\<rparr>"
      using rdpq_block_flush_patch [OF al True] assms(1) p by simp
    then show ?thesis
      using p assms(2) by (simp add: extends_last_submit_def low24_of_submit_word)
  next
    case False
    have "sa = s\<lparr>last_rdp_cmd := Some (length (rspq s)),
            rspq := rspq s @ [push_bit 24 (RSPQ_CMD_RDP K) OR PhysicalAddr K end,
                              PhysicalAddr K start]\<rparr>"
      using rdpq_block_flush_fresh [OF al False] assms(1) by simp
    then show ?thesis
      using assms(2) by (simp add: extends_last_submit_def low24_of_submit_word nth_append)
  qed
qed

text \<open>
  Claim C7. A flush whose addresses are 8-byte aligned patches the end pointer of the
  last submit in place when it extends it (its physical start is the end recorded
  there and no CP command was written since), and nothing else changes; in every other
  case it appends a fresh submit and remembers where. After a flush ending below
  16 MiB, a flush that starts at that end extends the submit.
\<close>

theorem rdpq_block_flush_coalesces:
  assumes "start AND 7 = 0" and "end AND 7 = 0"
  shows "(extends_last_submit K start s \<longrightarrow>
            rdpq_block_flush K start end s =
              Some (s\<lparr>rspq := (rspq s)[the (last_rdp_cmd s) :=
                         push_bit 24 (RSPQ_CMD_RDP K) OR PhysicalAddr K end]\<rparr>))
       \<and> (\<not> extends_last_submit K start s \<longrightarrow>
            rdpq_block_flush K start end s =
              Some (s\<lparr>last_rdp_cmd := Some (length (rspq s)),
                     rspq := rspq s @ [push_bit 24 (RSPQ_CMD_RDP K) OR PhysicalAddr K end,
                                       PhysicalAddr K start]\<rparr>))
       \<and> (PhysicalAddr K end < 2 ^ 24 \<longrightarrow>
            (\<exists>sa. rdpq_block_flush K start end s = Some sa \<and> extends_last_submit K end sa))"
proof (intro conjI impI)
  assume "extends_last_submit K start s"
  then show "rdpq_block_flush K start end s =
      Some (s\<lparr>rspq := (rspq s)[the (last_rdp_cmd s) :=
                 push_bit 24 (RSPQ_CMD_RDP K) OR PhysicalAddr K end]\<rparr>)"
    by (rule rdpq_block_flush_patch [OF assms])
next
  assume "\<not> extends_last_submit K start s"
  then show "rdpq_block_flush K start end s =
      Some (s\<lparr>last_rdp_cmd := Some (length (rspq s)),
             rspq := rspq s @ [push_bit 24 (RSPQ_CMD_RDP K) OR PhysicalAddr K end,
                               PhysicalAddr K start]\<rparr>)"
    by (rule rdpq_block_flush_fresh [OF assms])
next
  assume lt: "PhysicalAddr K end < 2 ^ 24"
  obtain sa where sa: "rdpq_block_flush K start end s = Some sa"
    using rdpq_block_flush_patch [OF assms] rdpq_block_flush_fresh [OF assms] by blast
  then show "\<exists>sa. rdpq_block_flush K start end s = Some sa \<and> extends_last_submit K end sa"
    using extends_after_flush [OF sa lt] by blast
qed


lemma sample_env_sel:
  "PhysicalAddr sample_env a = a AND 0x1FFFFFFF"
  "RSPQ_CMD_RDP sample_env = 0x09"
  by (simp_all add: sample_env_def)

lemma sample_recording_sel:
  "rspq sample_recording = [0x09100010, 0x00100008]"
  "last_rdp_cmd sample_recording = Some 0"
  by (simp_all add: sample_recording_def)

theorem rdpq_block_flush_coalesces_witness:
  "(0xA0100010 :: 32 word) AND 7 = 0 \<and> (0xA0100018 :: 32 word) AND 7 = 0
   \<and> extends_last_submit sample_env 0xA0100010 sample_recording
   \<and> rdpq_block_flush sample_env 0xA0100010 0xA0100018 sample_recording
       = Some (sample_recording\<lparr>rspq := [0x09100018, 0x00100008]\<rparr>)
   \<and> \<not> extends_last_submit sample_env 0xA0100010 (sample_recording\<lparr>last_rdp_cmd := None\<rparr>)
   \<and> rdpq_block_flush sample_env 0xA0100010 0xA0100018 (sample_recording\<lparr>last_rdp_cmd := None\<rparr>)
       = Some (sample_recording\<lparr>last_rdp_cmd := Some 2,
                 rspq := [0x09100010, 0x00100008, 0x09100018, 0x00100010]\<rparr>)
   \<and> PhysicalAddr sample_env 0xA0100018 < 2 ^ 24
   \<and> (\<exists>sa. rdpq_block_flush sample_env 0xA0100010 0xA0100018 sample_recording = Some sa
          \<and> extends_last_submit sample_env 0xA0100018 sa)"
proof -
  have a: "(0xA0100010 :: 32 word) AND 7 = 0" "(0xA0100018 :: 32 word) AND 7 = 0" by simp_all
  have e1: "extends_last_submit sample_env 0xA0100010 sample_recording"
    by (simp add: extends_last_submit_def sample_env_sel sample_recording_sel)
  have e2: "\<not> extends_last_submit sample_env 0xA0100010 (sample_recording\<lparr>last_rdp_cmd := None\<rparr>)"
    by (simp add: extends_last_submit_def)
  have p: "PhysicalAddr sample_env 0xA0100018 < 2 ^ 24"
    by (simp add: sample_env_sel)
  note t1 = rdpq_block_flush_coalesces [OF a, of sample_env sample_recording]
  note t2 = rdpq_block_flush_coalesces [OF a, of sample_env "sample_recording\<lparr>last_rdp_cmd := None\<rparr>"]
  have f1: "rdpq_block_flush sample_env 0xA0100010 0xA0100018 sample_recording
       = Some (sample_recording\<lparr>rspq := [0x09100018, 0x00100008]\<rparr>)"
    using t1 e1 by (simp add: sample_env_sel sample_recording_sel)
  have f2: "rdpq_block_flush sample_env 0xA0100010 0xA0100018 (sample_recording\<lparr>last_rdp_cmd := None\<rparr>)
       = Some (sample_recording\<lparr>last_rdp_cmd := Some 2,
                 rspq := [0x09100010, 0x00100008, 0x09100018, 0x00100010]\<rparr>)"
    using t2 e2 by (simp add: sample_env_sel sample_recording_sel)
  have f3: "\<exists>sa. rdpq_block_flush sample_env 0xA0100010 0xA0100018 sample_recording = Some sa
          \<and> extends_last_submit sample_env 0xA0100018 sa"
    using t1 p by blast
  show ?thesis using a e1 e2 p f1 f2 f3 by blast
qed

subsection \<open>The interrupt bridge\<close>

lemma rdpq_interrupt_events:
  assumes "rdpq_interrupt K sp sf = Some evs"
  shows "evs = [Memory_barrier, SP_STATUS_write (SP_WSTATUS_CLEAR_SIG_RDPSYNCFULL K)]
               @ (if (ucast (drop_bit 32 sf AND 0x00FFFFFF) :: 32 word) \<noteq> 0
                  then [Callback_call (CachedAddr K (ucast (drop_bit 32 sf AND 0x00FFFFFF) OR 0x80000000))
                          (ucast (drop_bit 0 sf AND 0xFFFFFFFF))]
                  else [])"
  using assms by (auto simp: rdpq_interrupt_def Let_def split: if_splits)

text \<open>
  Claim C9. Whenever the handler runs (its assertion on \<open>SP_STATUS\<close> holds), every call
  of the callback comes after the write that clears the "full complete" signal in
  \<open>SP_STATUS\<close>, and there is no call of the callback before it.
\<close>

theorem rdpq_interrupt_clears_status_first:
  "(sp AND SP_STATUS_SIG_RDPSYNCFULL K \<noteq> 0 \<longrightarrow> (\<exists>evs. rdpq_interrupt K sp sf = Some evs))
   \<and> (rdpq_interrupt K sp sf = Some evs \<and> i < length evs \<and> evs ! i = Callback_call a w \<longrightarrow>
        (\<exists>j < i. evs ! j = SP_STATUS_write (SP_WSTATUS_CLEAR_SIG_RDPSYNCFULL K))
        \<and> (\<forall>j \<le> i. evs ! j = Callback_call a w \<longrightarrow> j = i))"
proof (intro conjI impI)
  assume "sp AND SP_STATUS_SIG_RDPSYNCFULL K \<noteq> 0"
  then show "\<exists>evs. rdpq_interrupt K sp sf = Some evs"
    by (simp add: rdpq_interrupt_def Let_def)
next
  assume h: "rdpq_interrupt K sp sf = Some evs \<and> i < length evs \<and> evs ! i = Callback_call a w"
  note e = rdpq_interrupt_events [of K sp sf evs]
  from h e have i2: "i = 2"
    by (cases "i = 0"; cases "i = 1") (auto simp: nth_Cons' split: if_splits)
  from h e have "evs ! 1 = SP_STATUS_write (SP_WSTATUS_CLEAR_SIG_RDPSYNCFULL K)"
    by (auto split: if_splits)
  with i2 show "\<exists>j < i. evs ! j = SP_STATUS_write (SP_WSTATUS_CLEAR_SIG_RDPSYNCFULL K)"
    by (intro exI [of _ 1]) simp
  show "\<forall>j \<le> i. evs ! j = Callback_call a w \<longrightarrow> j = i"
  proof (intro allI impI)
    fix j assume "j \<le> i" "evs ! j = Callback_call a w"
    with h e i2 show "j = i"
      by (cases "j = 0"; cases "j = 1") (auto simp: nth_Cons' split: if_splits)
  qed
qed

theorem rdpq_interrupt_clears_status_first_witness:
  "(0x800 :: 32 word) AND SP_STATUS_SIG_RDPSYNCFULL sample_env \<noteq> 0
   \<and> rdpq_interrupt sample_env 0x800 0xE910123400000005
       = Some [Memory_barrier, SP_STATUS_write 0x40000, Callback_call 0x80101234 5]
   \<and> (2 :: nat) < length [Memory_barrier, SP_STATUS_write 0x40000, Callback_call 0x80101234 5]
   \<and> [Memory_barrier, SP_STATUS_write 0x40000, Callback_call 0x80101234 5] ! 2 = Callback_call 0x80101234 5
   \<and> (\<exists>j < 2. [Memory_barrier, SP_STATUS_write 0x40000, Callback_call 0x80101234 5] ! j
                = SP_STATUS_write (SP_WSTATUS_CLEAR_SIG_RDPSYNCFULL sample_env))"
proof -
  have r: "rdpq_interrupt sample_env 0x800 0xE910123400000005
       = Some [Memory_barrier, SP_STATUS_write 0x40000, Callback_call 0x80101234 5]"
    by (simp add: rdpq_interrupt_def sample_env_def Let_def)
  have s: "(0x800 :: 32 word) AND SP_STATUS_SIG_RDPSYNCFULL sample_env \<noteq> 0"
    by (simp add: sample_env_def)
  show ?thesis
    using rdpq_interrupt_clears_status_first
      [of "0x800" sample_env "0xE910123400000005"
          "[Memory_barrier, SP_STATUS_write 0x40000, Callback_call 0x80101234 5]" 2 "0x80101234" 5] r s
    by simp
qed

subsection \<open>The empty block and the NULL callback\<close>

lemma shadow_callback_field:
  "(ucast (drop_bit 32 (sync_full_shadow word0 word1) AND 0x00FFFFFF) :: 32 word) = word0 AND 0xFFFFFF"
proof -
  have m: "(0xFFFFFF :: 64 word) = mask 24" "(0xFFFFFF :: 32 word) = mask 24"
    by (simp_all add: mask_eq_exp_minus_1)
  show ?thesis
    unfolding sync_full_shadow_def m
    by (rule bit_word_eqI) (auto simp: bit_simps dest: bit_imp_le_length)
qed

lemma sync_full_word_low24:
  "((RDPQ_OVL_ID + push_bit 24 c) OR w0) AND 0xFFFFFF = w0 AND (0xFFFFFF :: 32 word)"
proof -
  have m: "(0xFFFFFF :: 32 word) = mask 24" by (simp add: mask_eq_exp_minus_1)
  have "RDPQ_OVL_ID + push_bit 24 c = push_bit 24 (0xC0 + c)"
    by (simp add: RDPQ_OVL_ID_def push_bit_eq_mult algebra_simps)
  moreover have "push_bit 24 (0xC0 + c) AND mask 24 = (0 :: 32 word)"
    by (rule bit_word_eqI) (auto simp: bit_simps)
  ultimately show ?thesis unfolding m by (simp add: word_ao_dist)
qed

lemma rdpq_fence_dynamic:
  assumes "\<not> rdpq_block_active u"
  shows "rdpq_fence K u =
     Some (u\<lparr>rdpq_autosync_state := (rdpq_autosync_state u)(0 := 0),
            rspq := rspq u @ [(RDPQ_OVL_ID + push_bit 24 (RDPQ_CMD_SYNC_FULL K)) OR PhysicalAddr K 0, 0,
                              push_bit 24 (RSPQ_CMD_RDP_WAIT_IDLE K)]\<rparr>)"
  using assms
  by (simp add: rdpq_fence_def rdpq_sync_full_def in_block_def rdpq_dynamic_write_def
      rspq_int_write_def rspq_write_def Let_def)

text \<open>
  Claim C10. Ending a recording in which no buffer was ever allocated (right after
  \<open>begin\<close>, or from any state whose \<open>rdpq_block_first\<close> is \<open>NULL\<close>) returns the \<open>NULL\<close>
  handle, restores the saved dirty mask and leaves the heap alone; running the \<open>NULL\<close>
  block changes nothing and freeing it releases nothing. The interrupt handler calls the
  callback if and only if the 24-bit callback field of the shadow copy is nonzero; the
  \<open>SYNC_FULL\<close> that \<open>rdpq_fence\<close> writes carries the physical address of \<open>NULL\<close> there, so
  (that address being 0) its shadow copy triggers no call.
\<close>

theorem empty_block_and_null_callback:
  "(\<exists>t. rdpq_block_end (rdpq_block_begin s) = Some (0, t)
         \<and> rdpq_autosync_state t 0 = rdpq_autosync_state s 0 \<and> heap t = heap s)
   \<and> (rdpq_block_first r = 0 \<longrightarrow>
         (\<exists>t. rdpq_block_end r = Some (0, t)
            \<and> rdpq_autosync_state t 0 = rdpq_autosync_state r 1 \<and> heap t = heap r))
   \<and> rdpq_block_run 0 u = Some u
   \<and> rdpq_block_free 0 u = Some u
   \<and> (rdpq_interrupt K sp sf = Some evs \<longrightarrow>
         ((\<exists>a w. Callback_call a w \<in> set evs)
           \<longleftrightarrow> (ucast (drop_bit 32 sf AND 0x00FFFFFF) :: 32 word) \<noteq> 0))
   \<and> (\<not> rdpq_block_active u \<longrightarrow>
         (\<exists>t. rdpq_fence K u = Some t
            \<and> rspq t = rspq u @ [(RDPQ_OVL_ID + push_bit 24 (RDPQ_CMD_SYNC_FULL K)) OR PhysicalAddr K 0, 0,
                                  push_bit 24 (RSPQ_CMD_RDP_WAIT_IDLE K)]))
   \<and> (PhysicalAddr K 0 AND 0xFFFFFF = 0
        \<and> rdpq_interrupt K sp
             (sync_full_shadow ((RDPQ_OVL_ID + push_bit 24 (RDPQ_CMD_SYNC_FULL K)) OR PhysicalAddr K 0) 0)
             = Some evs' \<longrightarrow>
         (\<forall>a w. Callback_call a w \<notin> set evs'))"
proof (intro conjI impI)
  have "rdpq_block_first (rdpq_block_begin s) = 0"
    by (simp add: rdpq_block_begin_def Let_def)
  from rdpq_block_end_null [OF this]
  show "\<exists>t. rdpq_block_end (rdpq_block_begin s) = Some (0, t)
         \<and> rdpq_autosync_state t 0 = rdpq_autosync_state s 0 \<and> heap t = heap s"
    by (simp add: rdpq_block_begin_def Let_def)
next
  assume "rdpq_block_first r = 0"
  from rdpq_block_end_null [OF this]
  show "\<exists>t. rdpq_block_end r = Some (0, t)
            \<and> rdpq_autosync_state t 0 = rdpq_autosync_state r 1 \<and> heap t = heap r"
    by simp
next
  show "rdpq_block_run 0 u = Some u" by (simp add: rdpq_block_run_def)
  show "rdpq_block_free 0 u = Some u" by (simp add: rdpq_block_free.simps)
next
  assume "rdpq_interrupt K sp sf = Some evs"
  from rdpq_interrupt_events [OF this]
  show "(\<exists>a w. Callback_call a w \<in> set evs)
           \<longleftrightarrow> (ucast (drop_bit 32 sf AND 0x00FFFFFF) :: 32 word) \<noteq> 0"
    by (auto split: if_splits)
next
  assume "\<not> rdpq_block_active u"
  then show "\<exists>t. rdpq_fence K u = Some t
            \<and> rspq t = rspq u @ [(RDPQ_OVL_ID + push_bit 24 (RDPQ_CMD_SYNC_FULL K)) OR PhysicalAddr K 0, 0,
                                  push_bit 24 (RSPQ_CMD_RDP_WAIT_IDLE K)]"
    by (simp add: rdpq_fence_dynamic)
next
  assume h: "PhysicalAddr K 0 AND 0xFFFFFF = 0
        \<and> rdpq_interrupt K sp
             (sync_full_shadow ((RDPQ_OVL_ID + push_bit 24 (RDPQ_CMD_SYNC_FULL K)) OR PhysicalAddr K 0) 0)
             = Some evs'"
  have "evs' = [Memory_barrier, SP_STATUS_write (SP_WSTATUS_CLEAR_SIG_RDPSYNCFULL K)]"
    using rdpq_interrupt_events [OF conjunct2 [OF h]] conjunct1 [OF h]
    by (simp add: shadow_callback_field sync_full_word_low24)
  then show "\<forall>a w. Callback_call a w \<notin> set evs'" by simp
qed

lemma sample_env_sel2:
  "PhysicalAddr sample_env a = a AND 0x1FFFFFFF"
  "RDPQ_CMD_SYNC_FULL sample_env = 0x29"
  "RSPQ_CMD_RDP_WAIT_IDLE sample_env = 0x0A"
  "SP_WSTATUS_CLEAR_SIG_RDPSYNCFULL sample_env = 0x40000"
  by (simp_all add: sample_env_def)

theorem empty_block_and_null_callback_witness:
  "rdpq_block_first (rdpq_block_begin sample_state) = 0
   \<and> (\<exists>t. rdpq_block_end (rdpq_block_begin sample_state) = Some (0, t)
          \<and> rdpq_autosync_state t 0 = rdpq_autosync_state (rdpq_block_begin sample_state) 1)
   \<and> rdpq_interrupt sample_env 0x800 0xE910123400000005
       = Some [Memory_barrier, SP_STATUS_write 0x40000, Callback_call 0x80101234 5]
   \<and> ((\<exists>a w. Callback_call a w \<in> set [Memory_barrier, SP_STATUS_write 0x40000, Callback_call 0x80101234 5])
        \<longleftrightarrow> (ucast (drop_bit 32 (0xE910123400000005 :: 64 word) AND 0x00FFFFFF) :: 32 word) \<noteq> 0)
   \<and> \<not> rdpq_block_active sample_state
   \<and> (\<exists>t. rdpq_fence sample_env sample_state = Some t \<and> rspq t = [0xE9000000, 0, 0x0A000000])
   \<and> PhysicalAddr sample_env 0 AND 0xFFFFFF = 0
   \<and> rdpq_interrupt sample_env 0x800 (sync_full_shadow 0xE9000000 0)
       = Some [Memory_barrier, SP_STATUS_write 0x40000]
   \<and> (\<forall>a w. Callback_call a w \<notin> set [Memory_barrier, SP_STATUS_write 0x40000])"
proof -
  have b: "rdpq_block_first (rdpq_block_begin sample_state) = 0"
    by (simp add: rdpq_block_begin_def Let_def)
  have i1: "rdpq_interrupt sample_env 0x800 0xE910123400000005
       = Some [Memory_barrier, SP_STATUS_write 0x40000, Callback_call 0x80101234 5]"
    by (simp add: rdpq_interrupt_def sample_env_def Let_def)
  have d: "\<not> rdpq_block_active sample_state" by (simp add: sample_state_def)
  have p: "PhysicalAddr sample_env 0 AND 0xFFFFFF = 0" by (simp add: sample_env_sel2)
  have w: "(RDPQ_OVL_ID + push_bit 24 (RDPQ_CMD_SYNC_FULL sample_env)) OR PhysicalAddr sample_env 0
           = 0xE9000000"
    by (simp add: sample_env_sel2 RDPQ_OVL_ID_def)
  have i2: "rdpq_interrupt sample_env 0x800 (sync_full_shadow 0xE9000000 0)
       = Some [Memory_barrier, SP_STATUS_write 0x40000]"
    by (simp add: rdpq_interrupt_def sample_env_def sync_full_shadow_def Let_def)
  have r: "rspq sample_state = []" by (simp add: sample_state_def)
  note t = empty_block_and_null_callback
    [of sample_state "rdpq_block_begin sample_state" sample_state sample_env "0x800"
        "0xE910123400000005" "[Memory_barrier, SP_STATUS_write 0x40000, Callback_call 0x80101234 5]"
        "[Memory_barrier, SP_STATUS_write 0x40000]"]
  have c1: "\<exists>t. rdpq_block_end (rdpq_block_begin sample_state) = Some (0, t)
          \<and> rdpq_autosync_state t 0 = rdpq_autosync_state (rdpq_block_begin sample_state) 1"
    using t b by blast
  have c2: "(\<exists>a w. Callback_call a w \<in> set [Memory_barrier, SP_STATUS_write 0x40000, Callback_call 0x80101234 5])
        \<longleftrightarrow> (ucast (drop_bit 32 (0xE910123400000005 :: 64 word) AND 0x00FFFFFF) :: 32 word) \<noteq> 0"
    using t i1 by blast
  have c3: "\<exists>t. rdpq_fence sample_env sample_state = Some t \<and> rspq t = [0xE9000000, 0, 0x0A000000]"
    using t d unfolding w by (simp add: sample_env_sel2 r)
  have c4: "\<forall>a w. Callback_call a w \<notin> set [Memory_barrier, SP_STATUS_write 0x40000]"
    using t p i2 unfolding w by blast
  show ?thesis
    using b c1 i1 c2 d c3 p i2 c4 by blast
qed

section \<open>Properties of the auto-sync engine\<close>

subsection \<open>The writer neither reads nor writes the dirty mask and the configuration\<close>

text \<open>
  Each function of the writer commutes with an assignment to \<open>rdpq_config\<close> and
  \<open>rdpq_autosync_state\<close>. The first rules move these two assignments outside of the
  assignments the writer makes.
\<close>

lemma as_out:
  "\<And>s f v. (s\<lparr>rdpq_autosync_state := f\<rparr>)\<lparr>rdpq_block_ptr := v\<rparr>
     = (s\<lparr>rdpq_block_ptr := v\<rparr>)\<lparr>rdpq_autosync_state := f\<rparr>"
  "\<And>s f v. (s\<lparr>rdpq_autosync_state := f\<rparr>)\<lparr>rdpq_block_end_ptr := v\<rparr>
     = (s\<lparr>rdpq_block_end_ptr := v\<rparr>)\<lparr>rdpq_autosync_state := f\<rparr>"
  "\<And>s f v. (s\<lparr>rdpq_autosync_state := f\<rparr>)\<lparr>rdpq_block := v\<rparr>
     = (s\<lparr>rdpq_block := v\<rparr>)\<lparr>rdpq_autosync_state := f\<rparr>"
  "\<And>s f v. (s\<lparr>rdpq_autosync_state := f\<rparr>)\<lparr>rdpq_block_first := v\<rparr>
     = (s\<lparr>rdpq_block_first := v\<rparr>)\<lparr>rdpq_autosync_state := f\<rparr>"
  "\<And>s f i. (s\<lparr>rdpq_autosync_state := f\<rparr>)\<lparr>rdpq_block_size := i\<rparr>
     = (s\<lparr>rdpq_block_size := i\<rparr>)\<lparr>rdpq_autosync_state := f\<rparr>"
  "\<And>s f h. (s\<lparr>rdpq_autosync_state := f\<rparr>)\<lparr>heap := h\<rparr>
     = (s\<lparr>heap := h\<rparr>)\<lparr>rdpq_autosync_state := f\<rparr>"
  "\<And>s f m. (s\<lparr>rdpq_autosync_state := f\<rparr>)\<lparr>mem := m\<rparr>
     = (s\<lparr>mem := m\<rparr>)\<lparr>rdpq_autosync_state := f\<rparr>"
  by simp_all

lemma cfg_out:
  "\<And>s c v. (s\<lparr>rdpq_config := c\<rparr>)\<lparr>rdpq_block_ptr := v\<rparr>
     = (s\<lparr>rdpq_block_ptr := v\<rparr>)\<lparr>rdpq_config := c\<rparr>"
  "\<And>s c v. (s\<lparr>rdpq_config := c\<rparr>)\<lparr>rdpq_block_end_ptr := v\<rparr>
     = (s\<lparr>rdpq_block_end_ptr := v\<rparr>)\<lparr>rdpq_config := c\<rparr>"
  "\<And>s c v. (s\<lparr>rdpq_config := c\<rparr>)\<lparr>rdpq_block := v\<rparr>
     = (s\<lparr>rdpq_block := v\<rparr>)\<lparr>rdpq_config := c\<rparr>"
  "\<And>s c v. (s\<lparr>rdpq_config := c\<rparr>)\<lparr>rdpq_block_first := v\<rparr>
     = (s\<lparr>rdpq_block_first := v\<rparr>)\<lparr>rdpq_config := c\<rparr>"
  "\<And>s c i. (s\<lparr>rdpq_config := c\<rparr>)\<lparr>rdpq_block_size := i\<rparr>
     = (s\<lparr>rdpq_block_size := i\<rparr>)\<lparr>rdpq_config := c\<rparr>"
  "\<And>s c h. (s\<lparr>rdpq_config := c\<rparr>)\<lparr>heap := h\<rparr>
     = (s\<lparr>heap := h\<rparr>)\<lparr>rdpq_config := c\<rparr>"
  "\<And>s c m. (s\<lparr>rdpq_config := c\<rparr>)\<lparr>mem := m\<rparr>
     = (s\<lparr>mem := m\<rparr>)\<lparr>rdpq_config := c\<rparr>"
  by simp_all

lemmas frame_out = as_out cfg_out

lemma flush_frame:
  "rdpq_block_flush K a b (s\<lparr>rdpq_config := c, rdpq_autosync_state := f\<rparr>)
   = map_option (\<lambda>t. t\<lparr>rdpq_config := c, rdpq_autosync_state := f\<rparr>) (rdpq_block_flush K a b s)"
  by (simp add: rdpq_block_flush_def rspq_int_write_def rspq_write_def Let_def split: option.splits)

lemma switch_buffer_frame:
  "rdpq_block_switch_buffer K new sz (s\<lparr>rdpq_config := c, rdpq_autosync_state := f\<rparr>)
   = map_option (\<lambda>t. t\<lparr>rdpq_config := c, rdpq_autosync_state := f\<rparr>)
       (rdpq_block_switch_buffer K new sz s)"
  by (simp add: rdpq_block_switch_buffer_def Let_def frame_out flush_frame)

lemma set_next_frame:
  "set_next p v (s\<lparr>rdpq_config := c, rdpq_autosync_state := f\<rparr>)
   = map_option (\<lambda>t. t\<lparr>rdpq_config := c, rdpq_autosync_state := f\<rparr>) (set_next p v s)"
  by (simp add: set_next_def split: option.splits)

lemma malloc_frame:
  "malloc_uncached n (s\<lparr>rdpq_config := c, rdpq_autosync_state := f\<rparr>)
   = (fst (malloc_uncached n s),
      (snd (malloc_uncached n s))\<lparr>rdpq_config := c, rdpq_autosync_state := f\<rparr>)"
  by (simp add: malloc_uncached_def Let_def)

text \<open>A rule to push such an equation through one step of a sequence.\<close>

lemma bind_map_optionI:
  assumes "m' = map_option g m" "\<And>x. m = Some x \<Longrightarrow> h' (g x) = map_option g (h x)"
  shows "Option.bind m' h' = map_option g (Option.bind m h)"
  using assms by (cases m) simp_all

lemma next_buffer_frame:
  "rdpq_block_next_buffer K (s\<lparr>rdpq_config := c, rdpq_autosync_state := f\<rparr>)
   = map_option (\<lambda>t. t\<lparr>rdpq_config := c, rdpq_autosync_state := f\<rparr>) (rdpq_block_next_buffer K s)"
  unfolding rdpq_block_next_buffer_def malloc_frame split_beta Let_def fst_conv snd_conv
  apply (rule bind_map_optionI)
   apply (simp add: set_next_frame)
  apply (rule bind_map_optionI)
   apply (simp add: set_next_frame)
  apply (rule bind_map_optionI)
   apply (simp add: frame_out switch_buffer_frame)
  apply (simp add: frame_out)
  done

lemma check_frame:
  "rdpq_block_check K (s\<lparr>rdpq_config := c, rdpq_autosync_state := f\<rparr>)
   = map_option (\<lambda>t. t\<lparr>rdpq_config := c, rdpq_autosync_state := f\<rparr>) (rdpq_block_check K s)"
  by (simp add: rdpq_block_check_def next_buffer_frame)

lemma static_write_frame:
  "rdpq_static_write K cmd a0 as (s\<lparr>rdpq_config := c, rdpq_autosync_state := f\<rparr>)
   = map_option (\<lambda>t. t\<lparr>rdpq_config := c, rdpq_autosync_state := f\<rparr>)
       (rdpq_static_write K cmd a0 as s)"
  unfolding rdpq_static_write_def Let_def
  apply (rule bind_map_optionI)
   apply (simp add: frame_out flush_frame)
  apply (simp add: frame_out next_buffer_frame)
  done

lemma write_frame:
  "rdpq_write K cmd a0 as (s\<lparr>rdpq_config := c, rdpq_autosync_state := f\<rparr>)
   = map_option (\<lambda>t. t\<lparr>rdpq_config := c, rdpq_autosync_state := f\<rparr>) (rdpq_write K cmd a0 as s)"
  unfolding rdpq_write_def
  apply (cases "in_block s")
   apply (simp add: in_block_def)
   apply (rule bind_map_optionI)
    apply (simp add: check_frame)
   apply (simp add: static_write_frame)
  apply (simp add: in_block_def rdpq_dynamic_write_def rspq_write_def)
  done

lemma write8_frame:
  "rdpq_write8 K cmd a0 a1 (s\<lparr>rdpq_config := c, rdpq_autosync_state := f\<rparr>)
   = map_option (\<lambda>t. t\<lparr>rdpq_config := c, rdpq_autosync_state := f\<rparr>) (rdpq_write8 K cmd a0 a1 s)"
  by (simp add: rdpq_write8_def write_frame)

lemma write8_keeps:
  assumes "rdpq_write8 K cmd a0 a1 s = Some t"
  shows "rdpq_config t = rdpq_config s" and "rdpq_autosync_state t = rdpq_autosync_state s"
proof -
  have "rdpq_write8 K cmd a0 a1 (s\<lparr>rdpq_config := rdpq_config s,
            rdpq_autosync_state := rdpq_autosync_state s\<rparr>) = Some t"
    using assms by simp
  then have e: "t = t\<lparr>rdpq_config := rdpq_config s, rdpq_autosync_state := rdpq_autosync_state s\<rparr>"
    unfolding write8_frame assms by simp
  have "rdpq_config t
      = rdpq_config (t\<lparr>rdpq_config := rdpq_config s, rdpq_autosync_state := rdpq_autosync_state s\<rparr>)"
    using e by (rule arg_cong)
  then show "rdpq_config t = rdpq_config s" by simp
  have "rdpq_autosync_state t
      = rdpq_autosync_state (t\<lparr>rdpq_config := rdpq_config s, rdpq_autosync_state := rdpq_autosync_state s\<rparr>)"
    using e by (rule arg_cong)
  then show "rdpq_autosync_state t = rdpq_autosync_state s" by simp
qed

lemma write8_as:
  "rdpq_write8 K cmd a0 a1 (s\<lparr>rdpq_autosync_state := f\<rparr>)
   = map_option (\<lambda>t. t\<lparr>rdpq_autosync_state := f\<rparr>) (rdpq_write8 K cmd a0 a1 s)"
proof -
  have 1: "s\<lparr>rdpq_autosync_state := f\<rparr> = s\<lparr>rdpq_config := rdpq_config s, rdpq_autosync_state := f\<rparr>"
    by simp
  show ?thesis
  proof (cases "rdpq_write8 K cmd a0 a1 s")
    case None
    then show ?thesis unfolding 1 write8_frame by simp
  next
    case (Some t)
    have "t\<lparr>rdpq_config := rdpq_config s, rdpq_autosync_state := f\<rparr> = t\<lparr>rdpq_autosync_state := f\<rparr>"
      using write8_keeps(1) [OF Some, symmetric] by simp
    then show ?thesis unfolding 1 write8_frame Some by simp
  qed
qed


subsection \<open>What \<open>autosync_change\<close> emits and clears\<close>

lemma write8_all_as:
  "write8_all K cs (s\<lparr>rdpq_autosync_state := f\<rparr>)
   = map_option (\<lambda>t. t\<lparr>rdpq_autosync_state := f\<rparr>) (write8_all K cs s)"
proof (induction cs arbitrary: s)
  case Nil
  show ?case by simp
next
  case (Cons c cs)
  show ?case
    by (cases "rdpq_write8 K c 0 0 s") (simp_all add: write8_as Cons.IH)
qed

lemma write8_all_keeps:
  "write8_all K cs s = Some t \<Longrightarrow>
     rdpq_config t = rdpq_config s \<and> rdpq_autosync_state t = rdpq_autosync_state s"
proof (induction cs arbitrary: s)
  case Nil
  then show ?case by simp
next
  case (Cons c cs)
  from Cons.prems obtain u where u: "rdpq_write8 K c 0 0 s = Some u" "write8_all K cs u = Some t"
    by (auto simp: bind_eq_Some_conv)
  from Cons.IH [OF u(2)] write8_keeps [OF u(1)] show ?case by simp
qed

lemma write8_all_append:
  "write8_all K (cs @ ds) s = write8_all K cs s \<bind> write8_all K ds"
proof (induction cs arbitrary: s)
  case Nil
  show ?case by simp
next
  case (Cons c cs)
  show ?case
    by (cases "rdpq_write8 K c 0 0 s") (simp_all add: Cons.IH)
qed

text \<open>
  One of the three steps of \<open>autosync_change\<close>, taken in a state that differs from a
  state \<open>t\<close> in the mask only: it writes the sync command to \<open>t\<close> if the class is due,
  and clears the bits of the class in the mask.
\<close>

lemma sync_step:
  assumes sync: "\<And>u. sync u = rdpq_write8 K cmd 0 0 u \<bind>
      (\<lambda>v. Some (v\<lparr>rdpq_autosync_state :=
                 (rdpq_autosync_state v)(0 := rdpq_autosync_state v 0 AND NOT cls)\<rparr>))"
  shows "(if due then sync (t\<lparr>rdpq_autosync_state := f\<rparr>) else Some (t\<lparr>rdpq_autosync_state := f\<rparr>))
     = map_option (\<lambda>v. v\<lparr>rdpq_autosync_state := f(0 := f 0 AND NOT (if due then cls else 0))\<rparr>)
         (write8_all K (if due then [cmd] else []) t)"
proof (cases due)
  case False
  then show ?thesis by simp
next
  case True
  show ?thesis
  proof (cases "rdpq_write8 K cmd 0 0 t")
    case None
    then show ?thesis using True by (simp add: sync write8_as)
  next
    case (Some v)
    then show ?thesis using True by (simp add: sync write8_as)
  qed
qed

lemma autosync_change_normal_form:
  "autosync_change K res s
   = map_option
       (\<lambda>t. t\<lparr>rdpq_autosync_state :=
              (rdpq_autosync_state s)(0 := rdpq_autosync_state s 0 AND NOT (autosync_cleared K res s))\<rparr>)
       (write8_all K (autosync_cmds K res s) s)"
proof -
  define d where "d = res AND rdpq_autosync_state s 0"
  define f where "f = rdpq_autosync_state s"
  define T where "T = sync_due res s (AUTOSYNC_TILES K) (RDPQ_CFG_AUTOSYNCTILE K)"
  define L where "L = sync_due res s (AUTOSYNC_TMEMS K) (RDPQ_CFG_AUTOSYNCLOAD K)"
  define P where "P = sync_due res s (AUTOSYNC_PIPE K) (RDPQ_CFG_AUTOSYNCPIPE K)"
  define x1 where "x1 = (if T then AUTOSYNC_TILES K else 0)"
  define x2 where "x2 = (if L then AUTOSYNC_TMEMS K else 0)"
  define x3 where "x3 = (if P then AUTOSYNC_PIPE K else 0)"
  define c1 where "c1 = (if T then [RDPQ_CMD_SYNC_TILE K] else [])"
  define c2 where "c2 = (if L then [RDPQ_CMD_SYNC_LOAD K] else [])"
  define c3 where "c3 = (if P then [RDPQ_CMD_SYNC_PIPE K] else [])"
  define f1 where "f1 = f(0 := f 0 AND NOT x1)"
  define f2 where "f2 = f1(0 := f1 0 AND NOT x2)"
  define f3 where "f3 = f2(0 := f2 0 AND NOT x3)"
  have due: "T \<longleftrightarrow> d AND AUTOSYNC_TILES K \<noteq> 0 \<and> ucast (rdpq_config s) AND RDPQ_CFG_AUTOSYNCTILE K \<noteq> 0"
    "L \<longleftrightarrow> d AND AUTOSYNC_TMEMS K \<noteq> 0 \<and> ucast (rdpq_config s) AND RDPQ_CFG_AUTOSYNCLOAD K \<noteq> 0"
    "P \<longleftrightarrow> d AND AUTOSYNC_PIPE K \<noteq> 0 \<and> ucast (rdpq_config s) AND RDPQ_CFG_AUTOSYNCPIPE K \<noteq> 0"
    by (simp_all add: T_def L_def P_def sync_due_def d_def and.assoc)
  have f3: "f3 = f(0 := f 0 AND NOT (x1 OR x2 OR x3))"
    by (simp add: f3_def f2_def f1_def word_bw_assocs)
  have rhs: "autosync_cmds K res s = c1 @ c2 @ c3" "autosync_cleared K res s = x1 OR x2 OR x3"
    by (simp_all add: autosync_cmds_def autosync_cleared_def c1_def c2_def c3_def x1_def x2_def x3_def
        T_def L_def P_def word_bw_assocs)
  have st1: "(if T then rdpq_sync_tile K (t\<lparr>rdpq_autosync_state := g\<rparr>) else Some (t\<lparr>rdpq_autosync_state := g\<rparr>))
      = map_option (\<lambda>v. v\<lparr>rdpq_autosync_state := g(0 := g 0 AND NOT x1)\<rparr>) (write8_all K c1 t)" for t g
    unfolding x1_def c1_def by (rule sync_step) (simp add: rdpq_sync_tile_def)
  have st2: "(if L then rdpq_sync_load K (t\<lparr>rdpq_autosync_state := g\<rparr>) else Some (t\<lparr>rdpq_autosync_state := g\<rparr>))
      = map_option (\<lambda>v. v\<lparr>rdpq_autosync_state := g(0 := g 0 AND NOT x2)\<rparr>) (write8_all K c2 t)" for t g
    unfolding x2_def c2_def by (rule sync_step) (simp add: rdpq_sync_load_def)
  have st3: "(if P then rdpq_sync_pipe K (t\<lparr>rdpq_autosync_state := g\<rparr>) else Some (t\<lparr>rdpq_autosync_state := g\<rparr>))
      = map_option (\<lambda>v. v\<lparr>rdpq_autosync_state := g(0 := g 0 AND NOT x3)\<rparr>) (write8_all K c3 t)" for t g
    unfolding x3_def c3_def by (rule sync_step) (simp add: rdpq_sync_pipe_def)
  show ?thesis
  proof (cases "d = 0")
    case True
    then have "\<not> T" "\<not> L" "\<not> P" by (simp_all add: due)
    then have "c1 @ c2 @ c3 = []" "x1 OR x2 OR x3 = 0"
      by (simp_all add: c1_def c2_def c3_def x1_def x2_def x3_def)
    moreover have "autosync_change K res s = Some s"
      using True by (simp add: autosync_change_def d_def Let_def)
    ultimately show ?thesis by (simp add: rhs)
  next
    case False
    have s_eq: "s = s\<lparr>rdpq_autosync_state := f\<rparr>" by (simp add: f_def)
    define step2 where "step2 = (\<lambda>u.
        if d AND AUTOSYNC_TMEMS K \<noteq> 0 \<and> ucast (rdpq_config u) AND RDPQ_CFG_AUTOSYNCLOAD K \<noteq> 0
        then rdpq_sync_load K u else Some u)"
    define step3 where "step3 = (\<lambda>u.
        if d AND AUTOSYNC_PIPE K \<noteq> 0 \<and> ucast (rdpq_config u) AND RDPQ_CFG_AUTOSYNCPIPE K \<noteq> 0
        then rdpq_sync_pipe K u else Some u)"
    have start: "autosync_change K res s =
        (if T then rdpq_sync_tile K s else Some s) \<bind> (\<lambda>u. step2 u \<bind> step3)"
      using False by (simp add: autosync_change_def d_def [symmetric] Let_def due step2_def step3_def)
    have first: "(if T then rdpq_sync_tile K s else Some s)
        = map_option (\<lambda>v. v\<lparr>rdpq_autosync_state := f1\<rparr>) (write8_all K c1 s)"
      using st1 [where t=s and g=f] unfolding f1_def s_eq [symmetric] .
    have second: "step2 (u1\<lparr>rdpq_autosync_state := f1\<rparr>)
          = map_option (\<lambda>v. v\<lparr>rdpq_autosync_state := f2\<rparr>) (write8_all K c2 u1)"
      if "write8_all K c1 s = Some u1" for u1
      using st2 [where t=u1 and g=f1] write8_all_keeps [OF that]
      unfolding f2_def step2_def by (simp add: due)
    have third: "step3 (u2\<lparr>rdpq_autosync_state := f2\<rparr>)
          = map_option (\<lambda>v. v\<lparr>rdpq_autosync_state := f3\<rparr>) (write8_all K c3 u2)"
      if "write8_all K c1 s = Some u1" "write8_all K c2 u1 = Some u2" for u1 u2
      using st3 [where t=u2 and g=f2] write8_all_keeps [OF that(1)] write8_all_keeps [OF that(2)]
      unfolding f3_def step3_def by (simp add: due)
    have goal: "autosync_change K res s
        = map_option (\<lambda>t. t\<lparr>rdpq_autosync_state := f3\<rparr>) (write8_all K (c1 @ c2 @ c3) s)"
    proof (cases "write8_all K c1 s")
      case None
      then show ?thesis by (simp add: start first write8_all_append)
    next
      case (Some u1)
      note w1 = this
      show ?thesis
      proof (cases "write8_all K c2 u1")
        case None
        then show ?thesis
          by (simp add: start first w1 second [OF w1] write8_all_append)
      next
        case (Some u2)
        then show ?thesis
          by (simp add: start first w1 second [OF w1] third [OF w1 Some] write8_all_append)
      qed
    qed
    then show ?thesis
      by (simp add: rhs f3 f_def)
  qed
qed


lemma write8_all_dynamic:
  assumes "\<not> rdpq_block_active s"
  shows "write8_all K cs s
     = Some (s\<lparr>rspq := rspq s @ concat (map (\<lambda>c. [RDPQ_OVL_ID + push_bit 24 c, 0]) cs)\<rparr>)"
  using assms
proof (induction cs arbitrary: s)
  case Nil
  show ?case by simp
next
  case (Cons c cs)
  have w: "rdpq_write8 K c 0 0 s = Some (s\<lparr>rspq := rspq s @ [RDPQ_OVL_ID + push_bit 24 c, 0]\<rparr>)"
    using Cons.prems
    by (simp add: rdpq_write8_def rdpq_write_def in_block_def rdpq_dynamic_write_def rspq_write_def)
  have "\<not> rdpq_block_active (s\<lparr>rspq := rspq s @ [RDPQ_OVL_ID + push_bit 24 c, 0]\<rparr>)"
    using Cons.prems by simp
  from Cons.IH [OF this] show ?case by (simp add: w)
qed

lemma cleared_per_class:
  assumes "AUTOSYNC_TILES K AND AUTOSYNC_TMEMS K = 0"
    and "AUTOSYNC_TILES K AND AUTOSYNC_PIPE K = 0"
    and "AUTOSYNC_TMEMS K AND AUTOSYNC_PIPE K = 0"
  shows "autosync_cleared K res s AND AUTOSYNC_TILES K
           = (if sync_due res s (AUTOSYNC_TILES K) (RDPQ_CFG_AUTOSYNCTILE K) then AUTOSYNC_TILES K else 0)"
    and "autosync_cleared K res s AND AUTOSYNC_TMEMS K
           = (if sync_due res s (AUTOSYNC_TMEMS K) (RDPQ_CFG_AUTOSYNCLOAD K) then AUTOSYNC_TMEMS K else 0)"
    and "autosync_cleared K res s AND AUTOSYNC_PIPE K
           = (if sync_due res s (AUTOSYNC_PIPE K) (RDPQ_CFG_AUTOSYNCPIPE K) then AUTOSYNC_PIPE K else 0)"
proof -
  have c: "AUTOSYNC_TMEMS K AND AUTOSYNC_TILES K = 0" "AUTOSYNC_PIPE K AND AUTOSYNC_TILES K = 0"
    "AUTOSYNC_PIPE K AND AUTOSYNC_TMEMS K = 0"
    using assms by (simp_all add: and.commute)
  show "autosync_cleared K res s AND AUTOSYNC_TILES K
           = (if sync_due res s (AUTOSYNC_TILES K) (RDPQ_CFG_AUTOSYNCTILE K) then AUTOSYNC_TILES K else 0)"
    by (simp add: autosync_cleared_def word_ao_dist assms c)
  show "autosync_cleared K res s AND AUTOSYNC_TMEMS K
           = (if sync_due res s (AUTOSYNC_TMEMS K) (RDPQ_CFG_AUTOSYNCLOAD K) then AUTOSYNC_TMEMS K else 0)"
    by (simp add: autosync_cleared_def word_ao_dist assms c)
  show "autosync_cleared K res s AND AUTOSYNC_PIPE K
           = (if sync_due res s (AUTOSYNC_PIPE K) (RDPQ_CFG_AUTOSYNCPIPE K) then AUTOSYNC_PIPE K else 0)"
    by (simp add: autosync_cleared_def word_ao_dist assms c)
qed

lemma autosync_nothing_due:
  assumes "res AND rdpq_autosync_state s 0 = 0"
  shows "autosync_cmds K res s = []" and "autosync_cleared K res s = 0"
proof -
  have "\<not> sync_due res s cls cfg" for cls cfg
    using assms by (simp add: sync_due_def and.assoc [symmetric])
  then show "autosync_cmds K res s = []" and "autosync_cleared K res s = 0"
    by (simp_all add: autosync_cmds_def autosync_cleared_def)
qed

text \<open>
  Claim C5. \<open>autosync_change res\<close> writes the sync commands of the classes that are due
  (a dirty bit of the class in \<open>res\<close>, class enabled), \<open>SYNC_TILE\<close> then \<open>SYNC_LOAD\<close>
  then \<open>SYNC_PIPE\<close>, and nothing else, and clears the dirty bits of exactly those
  classes; outside a block the commands are appended to the CP stream in that order.
  If no dirty bit is in \<open>res\<close> nothing is written and the state is unchanged. With
  pairwise disjoint class masks, the bits cleared within a class are all of them if the
  class is due and none otherwise, so a suppressed class keeps its dirty bits.
\<close>

theorem autosync_change_syncs:
  "autosync_change K res s
     = map_option
         (\<lambda>t. t\<lparr>rdpq_autosync_state :=
                (rdpq_autosync_state s)(0 := rdpq_autosync_state s 0 AND NOT (autosync_cleared K res s))\<rparr>)
         (write8_all K (autosync_cmds K res s) s)
   \<and> (\<not> rdpq_block_active s \<longrightarrow>
         autosync_change K res s
           = Some (s\<lparr>rdpq_autosync_state :=
                       (rdpq_autosync_state s)(0 := rdpq_autosync_state s 0
                                                      AND NOT (autosync_cleared K res s)),
                    rspq := rspq s @ concat (map (\<lambda>c. [RDPQ_OVL_ID + push_bit 24 c, 0])
                                                 (autosync_cmds K res s))\<rparr>))
   \<and> (res AND rdpq_autosync_state s 0 = 0 \<longrightarrow>
         autosync_cmds K res s = [] \<and> autosync_cleared K res s = 0
         \<and> autosync_change K res s = Some s)
   \<and> (AUTOSYNC_TILES K AND AUTOSYNC_TMEMS K = 0 \<and> AUTOSYNC_TILES K AND AUTOSYNC_PIPE K = 0
        \<and> AUTOSYNC_TMEMS K AND AUTOSYNC_PIPE K = 0 \<longrightarrow>
         autosync_cleared K res s AND AUTOSYNC_TILES K
           = (if sync_due res s (AUTOSYNC_TILES K) (RDPQ_CFG_AUTOSYNCTILE K) then AUTOSYNC_TILES K else 0)
         \<and> autosync_cleared K res s AND AUTOSYNC_TMEMS K
           = (if sync_due res s (AUTOSYNC_TMEMS K) (RDPQ_CFG_AUTOSYNCLOAD K) then AUTOSYNC_TMEMS K else 0)
         \<and> autosync_cleared K res s AND AUTOSYNC_PIPE K
           = (if sync_due res s (AUTOSYNC_PIPE K) (RDPQ_CFG_AUTOSYNCPIPE K) then AUTOSYNC_PIPE K else 0))"
proof (intro conjI impI)
  show "autosync_change K res s
     = map_option
         (\<lambda>t. t\<lparr>rdpq_autosync_state :=
                (rdpq_autosync_state s)(0 := rdpq_autosync_state s 0 AND NOT (autosync_cleared K res s))\<rparr>)
         (write8_all K (autosync_cmds K res s) s)"
    by (rule autosync_change_normal_form)
next
  assume "\<not> rdpq_block_active s"
  then show "autosync_change K res s
           = Some (s\<lparr>rdpq_autosync_state :=
                       (rdpq_autosync_state s)(0 := rdpq_autosync_state s 0
                                                      AND NOT (autosync_cleared K res s)),
                    rspq := rspq s @ concat (map (\<lambda>c. [RDPQ_OVL_ID + push_bit 24 c, 0])
                                                 (autosync_cmds K res s))\<rparr>)"
    by (simp add: autosync_change_normal_form write8_all_dynamic)
next
  assume z: "res AND rdpq_autosync_state s 0 = 0"
  show "autosync_cmds K res s = []" "autosync_cleared K res s = 0"
    by (rule autosync_nothing_due [OF z])+
  show "autosync_change K res s = Some s"
    by (simp add: autosync_change_normal_form autosync_nothing_due [OF z])
next
  assume d: "AUTOSYNC_TILES K AND AUTOSYNC_TMEMS K = 0 \<and> AUTOSYNC_TILES K AND AUTOSYNC_PIPE K = 0
        \<and> AUTOSYNC_TMEMS K AND AUTOSYNC_PIPE K = 0"
  then have d': "AUTOSYNC_TILES K AND AUTOSYNC_TMEMS K = 0" "AUTOSYNC_TILES K AND AUTOSYNC_PIPE K = 0"
    "AUTOSYNC_TMEMS K AND AUTOSYNC_PIPE K = 0" by simp_all
  show "autosync_cleared K res s AND AUTOSYNC_TILES K
           = (if sync_due res s (AUTOSYNC_TILES K) (RDPQ_CFG_AUTOSYNCTILE K) then AUTOSYNC_TILES K else 0)"
    by (rule cleared_per_class [OF d'])
  show "autosync_cleared K res s AND AUTOSYNC_TMEMS K
           = (if sync_due res s (AUTOSYNC_TMEMS K) (RDPQ_CFG_AUTOSYNCLOAD K) then AUTOSYNC_TMEMS K else 0)"
    by (rule cleared_per_class [OF d'])
  show "autosync_cleared K res s AND AUTOSYNC_PIPE K
           = (if sync_due res s (AUTOSYNC_PIPE K) (RDPQ_CFG_AUTOSYNCPIPE K) then AUTOSYNC_PIPE K else 0)"
    by (rule cleared_per_class [OF d'])
qed

text \<open>
  In the sample state with tile 0, TMEM 0 and the pipe dirty, a change of tile 0 and of
  the pipe emits \<open>SYNC_TILE\<close> and then \<open>SYNC_PIPE\<close> and leaves the TMEM bit; with the
  pipe class switched off in the configuration only \<open>SYNC_TILE\<close> is emitted and the pipe
  bit stays; a change of TMEM 1, which is not dirty, does nothing.
\<close>

lemma sample_autosync:
  "autosync_cmds sample_env 0x10001 (autosync_use 0x10101 sample_state) = [0x28, 0x27]"
  "autosync_cleared sample_env 0x10001 (autosync_use 0x10101 sample_state) = 0x100FF"
  "autosync_cmds sample_env 0x10001 (rdpq_set_config 0x6 (autosync_use 0x10101 sample_state)) = [0x28]"
  "autosync_cleared sample_env 0x10001 (rdpq_set_config 0x6 (autosync_use 0x10101 sample_state)) = 0xFF"
  by (simp_all add: autosync_cmds_def autosync_cleared_def sync_due_def sample_env_def sample_state_def
      autosync_use_def rdpq_set_config_def)

theorem autosync_change_syncs_witness:
  "\<not> rdpq_block_active (autosync_use 0x10101 sample_state)
   \<and> autosync_change sample_env 0x10001 (autosync_use 0x10101 sample_state)
       = Some (sample_state\<lparr>rdpq_autosync_state := (\<lambda>_. 0)(0 := 0x100),
                            rspq := [0xE8000000, 0, 0xE7000000, 0]\<rparr>)
   \<and> \<not> rdpq_block_active (rdpq_set_config 0x6 (autosync_use 0x10101 sample_state))
   \<and> autosync_change sample_env 0x10001 (rdpq_set_config 0x6 (autosync_use 0x10101 sample_state))
       = Some (sample_state\<lparr>rdpq_config := 0x6,
                            rdpq_autosync_state := (\<lambda>_. 0)(0 := 0x10100),
                            rspq := [0xE8000000, 0]\<rparr>)
   \<and> 0x200 AND rdpq_autosync_state (autosync_use 0x10101 sample_state) 0 = 0
   \<and> autosync_change sample_env 0x200 (autosync_use 0x10101 sample_state)
       = Some (autosync_use 0x10101 sample_state)
   \<and> AUTOSYNC_TILES sample_env AND AUTOSYNC_TMEMS sample_env = 0
   \<and> AUTOSYNC_TILES sample_env AND AUTOSYNC_PIPE sample_env = 0
   \<and> AUTOSYNC_TMEMS sample_env AND AUTOSYNC_PIPE sample_env = 0
   \<and> autosync_cleared sample_env 0x10001 (autosync_use 0x10101 sample_state) AND AUTOSYNC_TMEMS sample_env = 0"
proof -
  let ?s = "autosync_use 0x10101 sample_state"
  let ?c = "rdpq_set_config 0x6 ?s"
  have a: "\<not> rdpq_block_active ?s" "\<not> rdpq_block_active ?c"
    by (simp_all add: autosync_use_def rdpq_set_config_def sample_state_def)
  have z: "0x200 AND rdpq_autosync_state ?s 0 = 0"
    by (simp add: autosync_use_def sample_state_def)
  have d: "AUTOSYNC_TILES sample_env AND AUTOSYNC_TMEMS sample_env = 0"
    "AUTOSYNC_TILES sample_env AND AUTOSYNC_PIPE sample_env = 0"
    "AUTOSYNC_TMEMS sample_env AND AUTOSYNC_PIPE sample_env = 0"
    by (simp_all add: sample_env_def)
  have sd: "\<not> sync_due 0x10001 ?s (AUTOSYNC_TMEMS sample_env) (RDPQ_CFG_AUTOSYNCLOAD sample_env)"
    by (simp add: sync_due_def sample_env_def autosync_use_def sample_state_def)
  note t1 = autosync_change_syncs [of sample_env "0x10001" ?s]
  note t2 = autosync_change_syncs [of sample_env "0x10001" ?c]
  note t3 = autosync_change_syncs [of sample_env "0x200" ?s]
  have r1: "autosync_change sample_env 0x10001 ?s
       = Some (sample_state\<lparr>rdpq_autosync_state := (\<lambda>_. 0)(0 := 0x100),
                            rspq := [0xE8000000, 0, 0xE7000000, 0]\<rparr>)"
    apply (subst t1 [THEN conjunct2, THEN conjunct1, rule_format, OF a(1)])
    apply (simp only: sample_autosync)
    apply (simp add: autosync_use_def sample_state_def RDPQ_OVL_ID_def)
    done
  have r2: "autosync_change sample_env 0x10001 ?c
       = Some (sample_state\<lparr>rdpq_config := 0x6,
                            rdpq_autosync_state := (\<lambda>_. 0)(0 := 0x10100),
                            rspq := [0xE8000000, 0]\<rparr>)"
    apply (subst t2 [THEN conjunct2, THEN conjunct1, rule_format, OF a(2)])
    apply (simp only: sample_autosync)
    apply (simp add: autosync_use_def rdpq_set_config_def sample_state_def RDPQ_OVL_ID_def)
    done
  have r3: "autosync_change sample_env 0x200 ?s = Some ?s"
    using t3 z by blast
  have r4: "autosync_cleared sample_env 0x10001 ?s AND AUTOSYNC_TMEMS sample_env = 0"
    using t1 [THEN conjunct2, THEN conjunct2, THEN conjunct2, rule_format, THEN conjunct2, THEN conjunct1] d sd
    by simp
  show ?thesis using a z d r1 r2 r3 r4 by blast
qed

subsection \<open>Sizes of the buffers of a block\<close>

lemma flush_keeps_block:
  "rdpq_block_flush K a b s = Some t \<Longrightarrow>
     heap t = heap s \<and> rdpq_block t = rdpq_block s \<and> rdpq_block_size t = rdpq_block_size s"
  by (auto simp: rdpq_block_flush_def rspq_int_write_def rspq_write_def Let_def
      split: if_splits option.splits)

lemma switch_buffer_keeps_block:
  assumes "rdpq_block_switch_buffer K new sz s = Some t"
  shows "heap t = heap s \<and> rdpq_block t = rdpq_block s \<and> rdpq_block_size t = rdpq_block_size s"
proof -
  from assms have "rdpq_block_flush K new new
      (s\<lparr>rdpq_block_ptr := new,
         rdpq_block_end_ptr := new + 4 * sz - 4 * word_of_int RDPQ_MAX_COMMAND_SIZE\<rparr>) = Some t"
    by (simp add: rdpq_block_switch_buffer_def Let_def split: if_splits)
  from flush_keeps_block [OF this] show ?thesis by simp
qed

text \<open>
  One allocation: the new buffer is the current block, it holds \<open>rdpq_block_size\<close>
  command words, and the size for the next one is doubled if it was below
  \<open>RDPQ_BLOCK_MAX_SIZE\<close> and kept otherwise.
\<close>

lemma next_buffer_size:
  assumes "rdpq_block_next_buffer K s = Some t"
  shows "\<exists>blk. heap t (rdpq_block t) = Some blk \<and> cmds_words blk = nat (rdpq_block_size s)"
    and "rdpq_block_size t =
           (if rdpq_block_size s < RDPQ_BLOCK_MAX_SIZE then rdpq_block_size s * 2 else rdpq_block_size s)"
proof -
  define b where "b = uncached_allocs s (uncached_count s)"
  define sa where "sa = s\<lparr>uncached_count := uncached_count s + 1,
      heap := (heap s)(b \<mapsto> \<lparr>next = 0, autosync_state = 0, cmds_words = nat (rdpq_block_size s)\<rparr>)\<rparr>"
  have m: "malloc_uncached (nat (rdpq_block_size s)) s = (b, sa)"
    by (simp add: malloc_uncached_def b_def sa_def Let_def)
  define sb where "sb = sa\<lparr>heap := (heap sa)(b \<mapsto>
      \<lparr>next = 0, autosync_state = 0, cmds_words = nat (rdpq_block_size s)\<rparr>)\<rparr>"
  have n1: "set_next b 0 sa = Some sb"
    by (simp add: set_next_def sa_def sb_def)
  have h1: "\<exists>blk. heap sb b = Some blk \<and> cmds_words blk = nat (rdpq_block_size s)"
    by (simp add: sb_def)
  define u where "u = (\<lambda>sc :: rdpq. if rdpq_block_first (sc\<lparr>rdpq_block := b\<rparr>) = 0
      then sc\<lparr>rdpq_block := b, rdpq_block_first := b\<rparr> else sc\<lparr>rdpq_block := b\<rparr>)"
  define grow where "grow = (\<lambda>v :: rdpq. if rdpq_block_size v < RDPQ_BLOCK_MAX_SIZE
                 then v\<lparr>rdpq_block_size := rdpq_block_size v * 2\<rparr> else v)"
  have expand: "rdpq_block_next_buffer K s =
      (if rdpq_block sb \<noteq> 0 then set_next (rdpq_block sb) b sb else Some sb) \<bind>
      (\<lambda>sc. rdpq_block_switch_buffer K (block_cmds K (rdpq_block (u sc)))
                (word_of_int (rdpq_block_size (u sc))) (u sc) \<bind> (\<lambda>v. Some (grow v)))"
    by (simp add: rdpq_block_next_buffer_def m n1 Let_def u_def grow_def)
  from assms obtain sc v where
    sc: "(if rdpq_block sb \<noteq> 0 then set_next (rdpq_block sb) b sb else Some sb) = Some sc"
    and v: "rdpq_block_switch_buffer K (block_cmds K (rdpq_block (u sc)))
                (word_of_int (rdpq_block_size (u sc))) (u sc) = Some v"
    and t: "t = grow v"
    unfolding expand by (auto simp: bind_eq_Some_conv)
  have h2: "(\<exists>blk. heap sc b = Some blk \<and> cmds_words blk = nat (rdpq_block_size s))
            \<and> rdpq_block_size sc = rdpq_block_size s"
    using sc h1 by (auto simp: set_next_def sb_def sa_def split: if_splits option.splits)
  have hu: "heap (u sc) = heap sc" "rdpq_block (u sc) = b" "rdpq_block_size (u sc) = rdpq_block_size sc"
    by (simp_all add: u_def)
  note kv = switch_buffer_keeps_block [OF v]
  show "\<exists>blk. heap t (rdpq_block t) = Some blk \<and> cmds_words blk = nat (rdpq_block_size s)"
    using h2 kv hu by (simp add: t grow_def)
  show "rdpq_block_size t =
           (if rdpq_block_size s < RDPQ_BLOCK_MAX_SIZE then rdpq_block_size s * 2 else rdpq_block_size s)"
    using h2 kv hu by (simp add: t grow_def)
qed

lemma next_buffers_sizes:
  assumes "next_buffers K n u = Some (szs, t)" and "rdpq_block_size u = 64 * 2 ^ j"
  shows "length szs = n \<and> (\<forall>k < n. j + k \<le> 6 \<longrightarrow> szs ! k = 64 * 2 ^ (j + k))"
  using assms
proof (induction n arbitrary: u szs j)
  case 0
  then show ?case by simp
next
  case (Suc n)
  from Suc.prems(1) obtain v blk rest where
    v: "rdpq_block_next_buffer K u = Some v" and blk: "heap v (rdpq_block v) = Some blk"
    and r: "next_buffers K n v = Some (rest, t)" and szs: "szs = cmds_words blk # rest"
    by (auto simp: bind_eq_Some_conv split: prod.splits)
  from next_buffer_size [OF v] blk
  have c: "cmds_words blk = nat (rdpq_block_size u)"
    and sz: "rdpq_block_size v =
           (if rdpq_block_size u < RDPQ_BLOCK_MAX_SIZE then rdpq_block_size u * 2 else rdpq_block_size u)"
    by simp_all
  have c': "cmds_words blk = 64 * 2 ^ j"
    using c Suc.prems(2) by (simp add: nat_mult_distrib nat_power_eq)
  show ?case
  proof (cases "j \<le> 6")
    case True
    have "(2::int) ^ j \<le> 2 ^ 6" using True by (intro power_increasing) simp_all
    then have "rdpq_block_size u < RDPQ_BLOCK_MAX_SIZE"
      using Suc.prems(2) by (simp add: RDPQ_BLOCK_MAX_SIZE_def)
    then have "rdpq_block_size v = 64 * 2 ^ (Suc j)"
      using sz Suc.prems(2) by simp
    from Suc.IH [OF r this] have ih: "length rest = n"
      "\<And>k. k < n \<Longrightarrow> Suc j + k \<le> 6 \<Longrightarrow> rest ! k = 64 * 2 ^ (Suc j + k)"
      by simp_all
    show ?thesis
    proof (intro conjI allI impI)
      show "length szs = Suc n" using ih(1) szs by simp
      fix k assume k: "k < Suc n" "j + k \<le> 6"
      show "szs ! k = 64 * 2 ^ (j + k)"
      proof (cases k)
        case 0
        then show ?thesis using c' szs by simp
      next
        case (Suc k')
        then show ?thesis using ih(2) [of k'] k szs by simp
      qed
    qed
  next
    case False
    obtain j' where "rdpq_block_size v = 64 * 2 ^ j'"
      using sz Suc.prems(2) by (cases "rdpq_block_size u < RDPQ_BLOCK_MAX_SIZE")
        (auto intro: that [of "Suc j"] that [of j])
    from Suc.IH [OF r this] have "length rest = n" by simp
    then show ?thesis using False szs by simp
  qed
qed



text \<open>
  Claim C3, as amended. The first write of a recording allocates the first buffer;
  of the buffers allocated in a row the first holds 64 command words and each of the
  next six holds double the one before (128 up to 4096 words); once the size kept for
  the next buffer is \<open>RDPQ_BLOCK_MAX_SIZE\<close> (4192) or more it is not doubled again: the
  buffer allocated holds that size and so does the one after it.
\<close>

theorem block_buffer_sizes:
  "rdpq_block_check K (rdpq_block_begin s) = rdpq_block_next_buffer K (rdpq_block_begin s)
   \<and> (next_buffers K n (rdpq_block_begin s) = Some (szs, t) \<longrightarrow>
        length szs = n \<and> (\<forall>k < n. k \<le> 6 \<longrightarrow> szs ! k = 64 * 2 ^ k))
   \<and> (rdpq_block_next_buffer K u = Some v \<and> RDPQ_BLOCK_MAX_SIZE \<le> rdpq_block_size u \<longrightarrow>
        rdpq_block_size v = rdpq_block_size u
        \<and> (\<exists>blk. heap v (rdpq_block v) = Some blk \<and> cmds_words blk = nat (rdpq_block_size u)))"
proof (intro conjI impI)
  show "rdpq_block_check K (rdpq_block_begin s) = rdpq_block_next_buffer K (rdpq_block_begin s)"
    by (simp add: rdpq_block_check_def rdpq_block_begin_def Let_def)
next
  assume a: "next_buffers K n (rdpq_block_begin s) = Some (szs, t)"
  have "rdpq_block_size (rdpq_block_begin s) = 64 * 2 ^ 0"
    by (simp add: rdpq_block_begin_def RDPQ_BLOCK_MIN_SIZE_def Let_def)
  from next_buffers_sizes [OF a this]
  show "length szs = n" and "\<forall>k < n. k \<le> 6 \<longrightarrow> szs ! k = 64 * 2 ^ k"
    by simp_all
next
  assume a: "rdpq_block_next_buffer K u = Some v \<and> RDPQ_BLOCK_MAX_SIZE \<le> rdpq_block_size u"
  from next_buffer_size [OF conjunct1 [OF a]] conjunct2 [OF a]
  show "rdpq_block_size v = rdpq_block_size u"
    and "\<exists>blk. heap v (rdpq_block v) = Some blk \<and> cmds_words blk = nat (rdpq_block_size u)"
    by simp_all
qed

lemma sample_three_buffers:
  "map_option fst (next_buffers sample_env 3 (rdpq_block_begin sample_state)) = Some [64, 128, 256]"
  by code_simp

lemma sample_full_size_buffer:
  "map_option rdpq_block_size
     (rdpq_block_next_buffer sample_env (sample_recording\<lparr>rdpq_block_size := 8192\<rparr>)) = Some 8192"
  by code_simp

theorem block_buffer_sizes_witness:
  "map_option fst (next_buffers sample_env 3 (rdpq_block_begin sample_state)) = Some [64, 128, 256]
   \<and> length [64, 128, 256 :: nat] = 3 \<and> [64, 128, 256 :: nat] ! 2 = 64 * 2 ^ 2
   \<and> RDPQ_BLOCK_MAX_SIZE \<le> rdpq_block_size (sample_recording\<lparr>rdpq_block_size := 8192\<rparr>)
   \<and> map_option rdpq_block_size
        (rdpq_block_next_buffer sample_env (sample_recording\<lparr>rdpq_block_size := 8192\<rparr>))
       = Some (rdpq_block_size (sample_recording\<lparr>rdpq_block_size := 8192\<rparr>))"
proof -
  obtain t where t: "next_buffers sample_env 3 (rdpq_block_begin sample_state) = Some ([64, 128, 256], t)"
    using sample_three_buffers by (auto simp: map_option_case split: option.splits)
  obtain v where v: "rdpq_block_next_buffer sample_env (sample_recording\<lparr>rdpq_block_size := 8192\<rparr>) = Some v"
    using sample_full_size_buffer by (auto simp: map_option_case split: option.splits)
  have m: "RDPQ_BLOCK_MAX_SIZE \<le> rdpq_block_size (sample_recording\<lparr>rdpq_block_size := 8192\<rparr>)"
    by (simp add: RDPQ_BLOCK_MAX_SIZE_def)
  note th = block_buffer_sizes [of sample_env sample_state 3 "[64, 128, 256]" t
      "sample_recording\<lparr>rdpq_block_size := 8192\<rparr>" v]
  have 1: "length [64, 128, 256 :: nat] = 3 \<and> [64, 128, 256 :: nat] ! 2 = 64 * 2 ^ 2"
    using th t by simp
  have 2: "rdpq_block_size v = rdpq_block_size (sample_recording\<lparr>rdpq_block_size := 8192\<rparr>)"
    using th v m by blast
  show ?thesis
    using sample_three_buffers 1 m 2 v by simp
qed

text \<open>
  Claim C3, as stated, fails on nine allocations in a row: the sizes are not doubled
  throughout (the ninth buffer is as large as the eighth), and the eighth and ninth
  buffers hold 8192 command words, more than 4192.
\<close>

theorem block_buffer_exceeds_max_size:
  "map_option fst (next_buffers sample_env 9 (rdpq_block_begin sample_state))
     = Some [64, 128, 256, 512, 1024, 2048, 4096, 8192, 8192]
   \<and> \<not> spec_buffer_sizes [64, 128, 256, 512, 1024, 2048, 4096, 8192, 8192]
   \<and> \<not> list_all (\<lambda>sz. sz \<le> 4192) [64, 128, 256, 512, 1024, 2048, 4096, 8192, 8192 :: nat]
   \<and> \<not> doubling [64, 128, 256, 512, 1024, 2048, 4096, 8192, 8192]"
proof -
  have "map_option fst (next_buffers sample_env 9 (rdpq_block_begin sample_state))
     = Some [64, 128, 256, 512, 1024, 2048, 4096, 8192, 8192]"
    by code_simp
  then show ?thesis
    by (simp add: spec_buffer_sizes_def)
qed

section \<open>Properties of the validator\<close>

lemma BITS_tile_range: "uint (BITS v 24 26) < 8"
proof -
  have "BITS v 24 26 = BITS v 24 26 AND mask 3"
    unfolding BITS_def by (rule bit_word_eqI) (auto simp: bit_simps dest: bit_imp_le_length)
  moreover have "BITS v 24 26 AND mask 3 < 2 ^ 3"
    by (rule and_mask_less_size) (simp add: word_size)
  ultimately have "BITS v 24 26 < 8" by simp
  then show ?thesis by (simp add: word_less_alt)
qed

lemma VALIDATE_keeps:
  "som (VALIDATE f c v) = som v" "cc (VALIDATE f c v) = cc v"
  "busy_tile (VALIDATE f c v) = busy_tile v" "tile (VALIDATE f c v) = tile v"
  by (simp_all add: VALIDATE_def validate_emit_error_def)

lemma mark_busy_tmem_keeps:
  "som (mark_busy_tmem a n v) = som v" "cc (mark_busy_tmem a n v) = cc v"
  "busy_tile (mark_busy_tmem a n v) = busy_tile v" "tile (mark_busy_tmem a n v) = tile v"
  by (simp_all add: mark_busy_tmem_def Let_def split_beta)

lemma use_tile_body_effect:
  "som (use_tile_body tidx cycle v) = som v"
  "cc (use_tile_body tidx cycle v) = cc v"
  "busy_tile (use_tile_body tidx cycle v) = (busy_tile v)(nat tidx := True)"
  by (simp_all add: use_tile_body_def Let_def VALIDATE_ERR_def VALIDATE_ERR_SOM_def
      VALIDATE_keeps mark_busy_tmem_keeps)

lemma cc_use_tex1_body: "cc_use_tex1 (use_tile_body tidx cycle v) = cc_use_tex1 v"
  by (simp add: cc_use_tex1_def use_tile_body_effect)

text \<open>A tile inside the arrays is marked busy, and so is the next one if \<open>TEX1\<close> is in use.\<close>

lemma use_tile_second_cycle:
  assumes "0 \<le> tidx" "tidx < 8"
  shows "use_tile tidx 1 v = Inr (use_tile_body tidx 1 v)"
  using assms by simp

lemma use_tile_without_tex1:
  assumes "0 \<le> tidx" "tidx < 8" "\<not> cc_use_tex1 v"
  shows "use_tile tidx 0 v = Inr (use_tile_body tidx 0 v)"
  using assms by (simp add: cc_use_tex1_body)

lemma use_tile_with_tex1:
  assumes "0 \<le> tidx" "tidx < 7" "cc_use_tex1 v"
  shows "use_tile tidx 0 v = Inr (use_tile_body (tidx + 1) 1 (use_tile_body tidx 0 v))"
  using assms by (simp add: cc_use_tex1_body)

lemma use_tile_marks_busy:
  assumes "0 \<le> tidx" "tidx < 7 \<or> (tidx = 7 \<and> \<not> cc_use_tex1 v)"
  shows "\<exists>w. use_tile tidx 0 v = Inr w \<and> busy_tile w (nat tidx)
            \<and> (cc_use_tex1 v \<longrightarrow> busy_tile w (nat (tidx + 1)))"
proof (cases "cc_use_tex1 v")
  case True
  with assms have "tidx < 7" by auto
  from use_tile_with_tex1 [OF assms(1) this True] show ?thesis
    by (simp add: use_tile_body_effect)
next
  case False
  from assms have "tidx < 8" by auto
  from use_tile_without_tex1 [OF assms(1) this False] False show ?thesis
    by (simp add: use_tile_body_effect)
qed

text \<open>For tile 7 with \<open>TEX1\<close> in use the second tile is number 8.\<close>

lemma use_tile_7_with_tex1:
  assumes "cc_use_tex1 v"
  shows "use_tile 7 0 v = Inl (Tile_index_out_of_bounds 8)"
  using assms by (simp add: cc_use_tex1_body)

text \<open>
  Claim C6 at a concrete command: a \<open>TEX_RECT\<close> naming tile 7, validated in two-cycle
  mode with a combiner that reads \<open>TEX1\<close>. \<open>use_tile\<close> goes on to tile 8, outside the
  8-entry arrays \<open>rdp.tile\<close> and \<open>rdp.busy.tile\<close>; for tile 6 in the same state tiles
  6 and 7 are marked.
\<close>

theorem use_tile_second_tile_out_of_bounds:
  "BITS 0x2400000007000000 24 26 = 7
   \<and> cc_use_tex1 sample_rdp
   \<and> use_tile (uint (BITS 0x2400000007000000 24 26)) 0 sample_rdp = Inl (Tile_index_out_of_bounds 8)
   \<and> map_sum id (\<lambda>w. map (busy_tile w) [0, 1, 2, 3, 4, 5, 6, 7]) (use_tile 6 0 sample_rdp)
       = Inr [False, False, False, False, False, False, True, True]"
proof -
  have b: "BITS 0x2400000007000000 24 26 = 7"
    by (simp add: BITS_def)
  have c: "cc_use_tex1 sample_rdp"
    by (simp add: cc_use_tex1_def sample_rdp_def zero_slots_def)
  have u: "use_tile 7 0 sample_rdp = Inl (Tile_index_out_of_bounds 8)"
    using c by (simp add: cc_use_tex1_body)
  have w: "use_tile 6 0 sample_rdp = Inr (use_tile_body 7 1 (use_tile_body 6 0 sample_rdp))"
    using c by (simp add: cc_use_tex1_body)
  have "map (busy_tile (use_tile_body 7 1 (use_tile_body 6 0 sample_rdp))) [0, 1, 2, 3, 4, 5, 6, 7]
      = [False, False, False, False, False, False, True, True]"
    by (simp add: use_tile_body_effect sample_rdp_def)
  then show ?thesis using b c u w by simp
qed

end
